theory Spec2Isabelle
  imports Main "HOL-Library.Sublist"
begin

section \<open>The Go library functions used by the manifest generator\<close>


text \<open>
  \<^verbatim>\<open>strings.Replace(s, old, new, n)\<close> for a non-empty \<open>old\<close>: a left-to-right scan that
  replaces the leftmost non-overlapping occurrences; a negative \<open>n\<close> never reaches zero,
  so every occurrence is replaced.
\<close>

fun replace_loop :: "int \<Rightarrow> string \<Rightarrow> string \<Rightarrow> string \<Rightarrow> string" where
  "replace_loop n old new [] = []"
| "replace_loop n old new (c # cs) =
     (if n = 0 then c # cs
      else if old \<noteq> [] \<and> prefix old (c # cs)
        then new @ replace_loop (n - 1) old new (drop (length old) (c # cs))
        else c # replace_loop n old new cs)"

text \<open>
  With an empty \<open>old\<close>, Go inserts \<open>new\<close> before each of the first runes and, when the
  count allows, once more at the end (a rune is taken to be one \<open>char\<close>).
\<close>

fun insert_loop :: "nat \<Rightarrow> string \<Rightarrow> string \<Rightarrow> string" where
  "insert_loop 0 new s = s"
| "insert_loop (Suc k) new [] = new"
| "insert_loop (Suc k) new (c # cs) = new @ c # insert_loop k new cs"

definition strings_Replace :: "string \<Rightarrow> string \<Rightarrow> string \<Rightarrow> int \<Rightarrow> string" where
  "strings_Replace s old new n =
     (if old = new \<or> n = 0 then s
      else if old = [] then insert_loop (if n < 0 then Suc (length s) else nat n) new s
      else replace_loop n old new s)"

text \<open>\<^verbatim>\<open>strings.Split(s, sep)\<close>: the pieces between the occurrences of \<open>sep\<close>.\<close>

fun split_loop :: "string \<Rightarrow> string \<Rightarrow> string \<Rightarrow> string list" where
  "split_loop sep cur [] = [cur]"
| "split_loop sep cur (c # cs) =
     (if sep \<noteq> [] \<and> prefix sep (c # cs)
        then cur # split_loop sep [] (drop (length sep) (c # cs))
        else split_loop sep (cur @ [c]) cs)"

definition strings_Split :: "string \<Rightarrow> string \<Rightarrow> string list" where
  "strings_Split s sep = (if sep = [] then map (\<lambda>c. [c]) s else split_loop sep [] s)"

fun strings_Join :: "string list \<Rightarrow> string \<Rightarrow> string" where
  "strings_Join [] sep = []"
| "strings_Join [e] sep = e"
| "strings_Join (e # es) sep = e @ sep @ strings_Join es sep"

text \<open>
  \<^verbatim>\<open>path.Base\<close>: the last element of a slash-separated path, after the trailing slashes
  are removed; \<open>.\<close> for the empty path and \<open>/\<close> for a path of slashes only.
\<close>

definition stripTrailingSlashes :: "string \<Rightarrow> string" where
  "stripTrailingSlashes p = rev (dropWhile (\<lambda>c. c = CHR ''/'') (rev p))"

definition lastElement :: "string \<Rightarrow> string" where
  "lastElement p = rev (takeWhile (\<lambda>c. c \<noteq> CHR ''/'') (rev p))"

definition path_Base :: "string \<Rightarrow> string" where
  "path_Base p =
     (if p = [] then ''.''
      else let e = lastElement (stripTrailingSlashes p) in if e = [] then ''/'' else e)"

definition filepath_Base :: "string \<Rightarrow> string" where
  "filepath_Base p = path_Base p"

text \<open>
  \<^verbatim>\<open>filepath.Clean\<close>: empty and \<open>.\<close> elements are dropped, an inner \<open>..\<close> removes the
  element before it, a \<open>..\<close> at the root is dropped, and the empty result is \<open>.\<close>.
\<close>

definition cleanStep :: "bool \<Rightarrow> string list \<Rightarrow> string \<Rightarrow> string list" where
  "cleanStep rooted st e =
     (if e = ''..'' then
        (if st \<noteq> [] \<and> last st \<noteq> ''..'' then butlast st
         else if rooted then st else st @ [e])
      else st @ [e])"

definition filepath_Clean :: "string \<Rightarrow> string" where
  "filepath_Clean p =
     (if p = [] then ''.''
      else let rooted = (hd p = CHR ''/'');
               elems = filter (\<lambda>e. e \<noteq> [] \<and> e \<noteq> ''.'') (strings_Split p ''/'');
               out = (if rooted then ''/'' else []) @
                       strings_Join (foldl (cleanStep rooted) [] elems) ''/''
           in if out = [] then ''.'' else out)"

text \<open>\<^verbatim>\<open>filepath.Join\<close> of two elements: the leading empty elements are ignored.\<close>

definition filepath_Join :: "string \<Rightarrow> string \<Rightarrow> string" where
  "filepath_Join a b =
     (if a \<noteq> [] then filepath_Clean (a @ ''/'' @ b)
      else if b \<noteq> [] then filepath_Clean b
      else [])"

section \<open>Data model\<close>

abbreviation tab :: char where "tab \<equiv> CHR 0x09"
abbreviation squote :: char where "squote \<equiv> CHR 0x27"
abbreviation dquote :: char where "dquote \<equiv> CHR 0x22"

text \<open>\<^verbatim>\<open>distro.ID\<close>: the identity of the Linux distribution.\<close>

record distro_ID =
  distro_Name :: string
  distro_Version :: string
  distro_Codename :: string

text \<open>\<^verbatim>\<open>implem.Info\<close>: the MPI implementation.\<close>

record implem_Info =
  mpi_ID :: string
  mpi_Version :: string
  mpi_URL :: string

text \<open>\<^verbatim>\<open>app.Info\<close>: the application.\<close>

record app_Info =
  app_Name :: string
  app_BinName :: string
  app_BinPath :: string
  app_Source :: string
  app_InstallCmd :: string

text \<open>\<^verbatim>\<open>buildenv.Info\<close> (the fields the generator reads).\<close>

record buildenv_Info =
  InstallDir :: string
  SrcDir :: string
  BuildDir :: string

text \<open>\<^verbatim>\<open>sys.Config\<close> (the fields the generator reads).\<close>

record sys_Config =
  Nopriv :: bool
  Debug :: bool

record TemplateTags =
  tag_Version :: string
  tag_Tarball :: string
  tag_URL :: string
  tag_Dir :: string
  tag_InstallConffile :: string
  tag_UninstallConffile :: string
  tag_Ifnet :: string

text \<open>
  \<^verbatim>\<open>DefFileData\<close>. \<open>MpiImplm\<close> and \<open>InternalEnv\<close> are pointers that may be nil
  (\<open>None\<close>); dereferencing nil panics.
\<close>

record DefFileData =
  Path :: string
  DistroID :: distro_ID
  MpiImplm :: "implem_Info option"
  Tags :: TemplateTags
  InternalEnv :: "buildenv_Info option"
  Model :: string

definition distroCodenameTag :: string where
  "distroCodenameTag = ''DISTROCODENAME''"

definition HybridModel :: string where
  "HybridModel = ''hybrid''"

definition BindModel :: string where
  "BindModel = ''bind''"

subsection \<open>Errors, panics and the output file\<close>

text \<open>
  An error is a failed write or read (\<open>IOErr\<close>), a message built by \<^verbatim>\<open>fmt.Errorf\<close>
  (\<open>Errorf\<close>), or a message that wraps another error with \<^verbatim>\<open>%s\<close> (\<open>Wrapf\<close>).
  A function that returns \<^verbatim>\<open>error\<close> ends in \<open>Success\<close> (nil), \<open>Failure e\<close> or
  in a panic.
\<close>

datatype error = IOErr | Errorf string | Wrapf string error

datatype status = Success | Failure error | Panic

text \<open>
  The open definition file: what has been written so far, and how many bytes the file can
  hold (\<open>None\<close>: no limit). A write that does not fit writes the bytes that still fit
  and fails.
\<close>

record os_File =
  content :: string
  capacity :: "nat option"

definition accepts :: "os_File \<Rightarrow> nat \<Rightarrow> bool" where
  "accepts f k = (case capacity f of None \<Rightarrow> True | Some n \<Rightarrow> length (content f) + k \<le> n)"

definition room :: "os_File \<Rightarrow> nat" where
  "room f = (case capacity f of None \<Rightarrow> 0 | Some n \<Rightarrow> n - length (content f))"

definition WriteString :: "os_File \<Rightarrow> string \<Rightarrow> os_File \<times> status" where
  "WriteString f s =
     (if accepts f (length s) then (f\<lparr>content := content f @ s\<rparr>, Success)
      else (f\<lparr>content := content f @ take (room f) s\<rparr>, Failure IOErr))"

text \<open>\<^verbatim>\<open>if err != nil { return err }\<close>: the rest runs only after a success.\<close>

definition andThen :: "'s \<times> status \<Rightarrow> ('s \<Rightarrow> 's \<times> status) \<Rightarrow> 's \<times> status" where
  "andThen r k = (case snd r of Success \<Rightarrow> k (fst r) | _ \<Rightarrow> r)"

text \<open>\<^verbatim>\<open>if err != nil { return fmt.Errorf(msg + "%s", err) }\<close>\<close>

definition wrap :: "string \<Rightarrow> 's \<times> status \<Rightarrow> 's \<times> status" where
  "wrap msg r = (case snd r of Failure e \<Rightarrow> (fst r, Failure (Wrapf msg e)) | _ \<Rightarrow> r)"

subsection \<open>The helper package\<close>

text \<open>
  The generator calls \<^verbatim>\<open>util.DetectTarballFormat\<close>, \<^verbatim>\<open>util.GetTarArgs\<close> and
  \<^verbatim>\<open>util.DetectURLType\<close> of an imported package whose code is not part of the
  sources. The section builders take the three functions as a parameter.
\<close>

datatype tarball_format = FormatBZ2 | FormatGZ | FormatTAR | UnknownFormat

datatype url_type = FileURL | HttpURL | GitURL | UnknownURL

record util_pkg =
  DetectTarballFormat :: "string \<Rightarrow> tarball_format"
  GetTarArgs :: "tarball_format \<Rightarrow> string"
  DetectURLType :: "string \<Rightarrow> url_type"

text \<open>
  Modelled from the spec: \<^verbatim>\<open>util.DetectTarballFormat\<close>, missing from the sources.
  The spec: \<^verbatim>\<open>.tar.bz2\<close> is bzip2, \<^verbatim>\<open>.tar.gz\<close> and \<^verbatim>\<open>.tgz\<close> are gzip, \<^verbatim>\<open>.tar\<close>
  is a plain archive, any other suffix is not recognised.
\<close>

definition spec_DetectTarballFormat :: "string \<Rightarrow> tarball_format" where
  "spec_DetectTarballFormat name =
     (if suffix ''.tar.bz2'' name then FormatBZ2
      else if suffix ''.tar.gz'' name \<or> suffix ''.tgz'' name then FormatGZ
      else if suffix ''.tar'' name then FormatTAR
      else UnknownFormat)"

text \<open>
  Modelled from the spec: \<^verbatim>\<open>util.GetTarArgs\<close>, missing from the sources. The spec
  names a bzip2 flag, a gzip flag and a plain flag; the flag texts are those of
  \<^verbatim>\<open>UpdateDeffileTemplate\<close>. The function returns a string only, so an unrecognised
  format has no flag.
\<close>

definition spec_GetTarArgs :: "tarball_format \<Rightarrow> string" where
  "spec_GetTarArgs fmt =
     (case fmt of FormatBZ2 \<Rightarrow> ''-xjf'' | FormatGZ \<Rightarrow> ''-xzf'' | FormatTAR \<Rightarrow> ''-xf''
      | UnknownFormat \<Rightarrow> [])"

text \<open>
  Modelled from the spec: \<^verbatim>\<open>util.DetectURLType\<close>, missing from the sources. The spec
  names three kinds of source location: git, http(s), and the file reference (a
  scheme-less path; the generator also strips a leading \<^verbatim>\<open>file://\<close> from it).
\<close>

definition spec_DetectURLType :: "string \<Rightarrow> url_type" where
  "spec_DetectURLType s =
     (if suffix ''.git'' s \<or> prefix ''git://'' s then GitURL
      else if prefix ''http://'' s \<or> prefix ''https://'' s then HttpURL
      else if prefix ''file://'' s \<or> \<not> sublist ''://'' s then FileURL
      else UnknownURL)"

definition util_spec :: util_pkg where
  "util_spec = \<lparr>DetectTarballFormat = spec_DetectTarballFormat,
                 GetTarArgs = spec_GetTarArgs,
                 DetectURLType = spec_DetectURLType\<rparr>"

section \<open>Section builders\<close>

text \<open>
  Each builder takes the open file and returns it with the outcome. The builders are
  \<^verbatim>\<open>addLabels\<close>, \<^verbatim>\<open>addDockerBootstrap\<close>, \<^verbatim>\<open>addYumBootstrap\<close>,
  \<^verbatim>\<open>addDebootstrapBootstrap\<close>, \<^verbatim>\<open>addDistroInit\<close>, \<^verbatim>\<open>AddBootstrap\<close> and the others
  of the \<^verbatim>\<open>deffile\<close> package, in the order of the source.
\<close>

text \<open>
  \<^verbatim>\<open>addLabels\<close> in two parts: \<open>labelsHeader\<close> is its writes up to the application
  name, \<open>addLabels\<close> continues with the executable path. \<^verbatim>\<open>addLabels\<close> also updates the
  application descriptor it receives by reference: outside the bind model an empty
  \<open>BinPath\<close> becomes \<^verbatim>\<open>/opt/<BinName>\<close>, once the writes before that point have
  succeeded.
\<close>

definition labelsHeader :: "os_File \<Rightarrow> app_Info \<Rightarrow> DefFileData \<Rightarrow> os_File \<times> status" where
  "labelsHeader f app deffile =
     andThen (WriteString f ''%labels\<newline>'') (\<lambda>f.
     andThen (WriteString f (tab # ''Linux_distribution '' @ distro_Name (DistroID deffile) @ ''\<newline>'')) (\<lambda>f.
     andThen (WriteString f (tab # ''Linux_version '' @ distro_Version (DistroID deffile) @ ''\<newline>'')) (\<lambda>f.
     andThen (case MpiImplm deffile of
                None \<Rightarrow> (f, Success)
              | Some m \<Rightarrow>
                  andThen (WriteString f (tab # ''MPI_Implementation '' @ mpi_ID m @ ''\<newline>'')) (\<lambda>f.
                  WriteString f (tab # ''MPI_Version '' @ mpi_Version m @ ''\<newline>''))) (\<lambda>f.
     andThen (case InternalEnv deffile of
                None \<Rightarrow> (f, Success)
              | Some e \<Rightarrow>
                  if InstallDir e \<noteq> []
                  then WriteString f (tab # ''MPI_Directory '' @ InstallDir e @ ''\<newline>'')
                  else (f, Success)) (\<lambda>f.
     andThen (if Model deffile \<noteq> []
              then WriteString f (tab # ''Model '' @ Model deffile @ ''\<newline>'')
              else (f, Success)) (\<lambda>f.
     WriteString f (tab # ''Application '' @ app_Name app @ ''\<newline>'')))))))"

definition addLabels :: "os_File \<Rightarrow> app_Info \<Rightarrow> DefFileData \<Rightarrow> (os_File \<times> app_Info) \<times> status" where
  "addLabels f app deffile =
     (case labelsHeader f app deffile of
        (f, Success) \<Rightarrow>
          if Model deffile = BindModel then
            (case andThen (WriteString f (tab # ''App_exe /opt/'' @ app_BinName app @ ''\<newline>''))
                    (\<lambda>f. WriteString f ''\<newline>'')
             of (f, st) \<Rightarrow> ((f, app), st))
          else
            (let app = (if app_BinPath app = []
                        then app\<lparr>app_BinPath := ''/opt/'' @ app_BinName app\<rparr> else app)
             in case andThen (WriteString f (tab # ''App_exe '' @ app_BinPath app @ ''\<newline>''))
                       (\<lambda>f. WriteString f ''\<newline>'')
                of (f, st) \<Rightarrow> ((f, app), st))
      | (f, st) \<Rightarrow> ((f, app), st))"

definition addDockerBootstrap :: "os_File \<Rightarrow> DefFileData \<Rightarrow> os_File \<times> status" where
  "addDockerBootstrap f deffile =
     wrap ''failed to add bootstrap section to definition file: ''
       (WriteString f (''Bootstrap: docker\<newline>From: '' @ distro_Name (DistroID deffile) @ ''\<newline>\<newline>''))"

definition addYumBootstrap :: "os_File \<Rightarrow> DefFileData \<Rightarrow> os_File \<times> status" where
  "addYumBootstrap f deffile =
     wrap ''failed to add bootstrap section to definition file: ''
       (WriteString f (''Bootstrap: yum\<newline>OSVersion: '' @ distro_Version (DistroID deffile) @
          ''\<newline>MirrorURL: http://mirror.centos.org/centos-%{OSVERSION}/%{OSVERSION}/os/$basearch/\<newline>Include: yum\<newline>\<newline>''))"

definition addDebootstrapBootstrap :: "os_File \<Rightarrow> DefFileData \<Rightarrow> os_File \<times> status" where
  "addDebootstrapBootstrap f deffile =
     wrap ''failed to add bootstrap section to definition file: ''
       (WriteString f (''Bootstrap: debootstrap\<newline>OSVersion: '' @ distro_Codename (DistroID deffile) @
          ''\<newline>MirrorURL: http://us.archive.ubuntu.com/ubuntu/\<newline>\<newline>''))"

definition addDistroInit :: "os_File \<Rightarrow> DefFileData \<Rightarrow> sys_Config \<Rightarrow> os_File \<times> status" where
  "addDistroInit f deffile sysCfg =
     andThen (WriteString f ''%post\<newline>'') (\<lambda>f.
       if distro_Name (DistroID deffile) = ''ubuntu'' then
         andThen (WriteString f (tab # ''apt-get update && apt-get install -y dash wget git bash gcc gfortran g++ make file software-properties-common\<newline>\<newline>'')) (\<lambda>f.
         andThen (wrap ''failed to add ubuntu initialization code to definition file: ''
                    (WriteString f (tab # ''add-apt-repository universe\<newline>''))) (\<lambda>f.
         andThen (wrap ''failed to add ubuntu initialization code to definition file: ''
                    (WriteString f (tab # ''add-apt-repository multiverse\<newline>''))) (\<lambda>f.
         wrap ''failed to add ubuntu initialization code to definition file: ''
           (WriteString f (tab # ''apt-get update\<newline>\<newline>'')))))
       else if distro_Name (DistroID deffile) = ''centos'' then
         andThen (if \<not> Nopriv sysCfg then WriteString f (tab # ''rpm --rebuilddb\<newline>'')
                  else (f, Success)) (\<lambda>f.
         andThen (WriteString f (tab # ''yum -y update\<newline>'')) (\<lambda>f.
         andThen (WriteString f (tab # ''yum -y install bash wget tar bzip2 git make gcc gcc-c++ gcc-gfortran\<newline>'')) (\<lambda>f.
         WriteString f (tab # ''yum clean all\<newline>\<newline>''))))
       else (f, Success))"

text \<open>
  \<^verbatim>\<open>AddBootstrap\<close>. The registry resolver \<^verbatim>\<open>distro.GetBaseImageLibraryURL\<close> is not
  part of the sources; it is the parameter \<open>GetBaseImageLibraryURL\<close>.
\<close>

definition AddBootstrap ::
  "(distro_ID \<Rightarrow> sys_Config \<Rightarrow> string) \<Rightarrow> os_File \<Rightarrow> DefFileData \<Rightarrow> sys_Config \<Rightarrow> os_File \<times> status" where
  "AddBootstrap GetBaseImageLibraryURL f deffile sysCfg =
     (let libraryURL = GetBaseImageLibraryURL (DistroID deffile) sysCfg in
      if libraryURL \<noteq> [] then
        wrap ''failed to add bootstrap section to definition file: ''
          (WriteString f (''Bootstrap: library\<newline>From: '' @ libraryURL @ ''\<newline>\<newline>''))
      else if distro_Name (DistroID deffile) = ''ubuntu'' then addDebootstrapBootstrap f deffile
      else if distro_Name (DistroID deffile) = ''centos'' then
        (if \<not> Nopriv sysCfg then addYumBootstrap f deffile else addDockerBootstrap f deffile)
      else (f, Failure (Errorf (''unsupported distro: '' @ distro_Name (DistroID deffile)))))"

text \<open>
  \<^verbatim>\<open>AddMPIInstall\<close>. The extraction flag is whatever \<^verbatim>\<open>util.GetTarArgs\<close> returns for
  the detected format; the builder has no error of its own.
\<close>

definition AddMPIInstall :: "util_pkg \<Rightarrow> os_File \<Rightarrow> DefFileData \<Rightarrow> os_File \<times> status" where
  "AddMPIInstall u f deffile =
     (case MpiImplm deffile of
        None \<Rightarrow> (f, Panic)
      | Some m \<Rightarrow>
          andThen (WriteString f (tab # ''export MPI_VERSION='' @ mpi_Version m @ ''\<newline>'' @
                     tab # ''export MPI_URL='' @ dquote # mpi_URL m @ dquote # ''\<newline>'')) (\<lambda>f.
          case InternalEnv deffile of
            None \<Rightarrow> (f, Panic)
          | Some e \<Rightarrow>
              andThen (WriteString f (tab # ''export MPI_DIR='' @ InstallDir e @ ''\<newline>'')) (\<lambda>f.
              andThen (WriteString f (tab # ''export MPI_BUILDDIR=/opt/build-mpi\<newline>'' @
                         tab # ''mkdir -p $MPI_BUILDDIR\<newline>\<newline>'')) (\<lambda>f.
              let mpitarball = path_Base (mpi_URL m);
                  tarballFormat = DetectTarballFormat u mpitarball;
                  tarArgs = GetTarArgs u tarballFormat
              in
              andThen (WriteString f (tab # ''cd $MPI_BUILDDIR && wget $MPI_URL && tar '' @ tarArgs @
                         '' '' @ mpitarball @ ''\<newline>'')) (\<lambda>f.
              andThen (WriteString f (tab # ''cd $MPI_BUILDDIR/'' @ mpi_ID m @
                         ''-$MPI_VERSION && ./configure --prefix=$MPI_DIR && make -j8 install\<newline>'')) (\<lambda>f.
              WriteString f (tab # ''export PATH=$MPI_DIR/bin:$PATH\<newline>'' @
                         tab # ''export LD_LIBRARY_PATH=$MPI_DIR/lib:$LD_LIBRARY_PATH\<newline>'' @
                         tab # ''export MANPATH=$MPI_DIR/share/man:$MANPATH\<newline>\<newline>'')))))))"

definition addMPIEnv :: "os_File \<Rightarrow> DefFileData \<Rightarrow> os_File \<times> status" where
  "addMPIEnv f deffile =
     (case InternalEnv deffile of
        None \<Rightarrow> (f, Panic)
      | Some e \<Rightarrow>
          andThen (WriteString f (''%environment\<newline>'' @ tab # ''MPI_DIR='' @ InstallDir e @ ''\<newline>'')) (\<lambda>f.
          WriteString f (tab # ''export MPI_DIR\<newline>'' @ tab # ''export PATH=$MPI_DIR/bin:$PATH\<newline>'' @
            tab # ''export LD_LIBRARY_PATH=$MPI_DIR/lib:$LD_LIBRARY_PATH\<newline>\<newline>'')))"


subsection \<open>The template processor\<close>

text \<open>
  The host of the template processor: the files by path, what goes wrong when a path is
  written, and the lines logged so far. \<^verbatim>\<open>ioutil.WriteFile\<close> opens the file with
  truncation and then writes: when the open fails the file is as it was, and when the
  write stops after some bytes the file holds those bytes and no more.
\<close>

datatype write_fault = OpenFails | WriteStops nat

record host =
  files :: "string \<Rightarrow> string option"
  writeFault :: "string \<Rightarrow> write_fault option"
  logs :: "string list"




text \<open>
  The first four replacements of \<^verbatim>\<open>UpdateDeffileTemplate\<close>, each of every occurrence:
  the version tag, the URL tag, the tarball tag and \<^verbatim>\<open>TARARGS\<close>, in this order. The
  fifth, of the codename marker, follows in \<^verbatim>\<open>UpdateDeffileTemplate\<close> itself.
\<close>

definition replaceTags :: "DefFileData \<Rightarrow> implem_Info \<Rightarrow> string \<Rightarrow> string \<Rightarrow> string \<Rightarrow> string" where
  "replaceTags data m tarball tarArgs d =
     (let content = d;
          content = strings_Replace content (tag_Version (Tags data)) (mpi_Version m) (- 1);
          content = strings_Replace content (tag_URL (Tags data)) (mpi_URL m) (- 1);
          content = strings_Replace content (tag_Tarball (Tags data)) tarball (- 1);
          content = strings_Replace content ''TARARGS'' tarArgs (- 1)
      in content)"


subsection \<open>Files, application and dependency sections\<close>

text \<open>The log lines of the builders are not part of the model.\<close>

definition createFilesSection ::
  "util_pkg \<Rightarrow> os_File \<Rightarrow> app_Info \<Rightarrow> DefFileData \<Rightarrow> sys_Config \<Rightarrow> os_File \<times> status" where
  "createFilesSection u f app data sysCfg =
     andThen (wrap ''failed to write to definition file: '' (WriteString f ''%files\<newline>'')) (\<lambda>f.
       if Model data = BindModel then
         wrap ''failed to write to definition file: ''
           (WriteString f (tab # app_BinPath app @ '' /opt\<newline>\<newline>''))
       else if Model data = HybridModel then
         (if DetectTarballFormat u (app_Source app) = UnknownFormat then
            (let src = strings_Replace (app_Source app) ''file://'' [] 1 in
             wrap ''failed to write to definition file: ''
               (WriteString f (tab # src @ '' /opt\<newline>\<newline>'')))
          else (f, Success))
       else
         (let src = strings_Replace (app_Source app) ''file://'' [] 1 in
          wrap ''failed to write to definition file: ''
            (WriteString f (tab # src @ '' /opt\<newline>\<newline>''))))"

definition createUbuntuDockerBootstrapSection :: "os_File \<Rightarrow> DefFileData \<Rightarrow> sys_Config \<Rightarrow> os_File \<times> status" where
  "createUbuntuDockerBootstrapSection f data sysCfg =
     andThen (wrap ''failed to write to definition file: '' (WriteString f ''Bootstrap: docker\<newline>'')) (\<lambda>f.
       wrap ''failed to write to definition file: ''
         (WriteString f ''From: ubuntu:DISTROCODENAME\<newline>\<newline>''))"

definition addAppInstall :: "util_pkg \<Rightarrow> os_File \<Rightarrow> app_Info \<Rightarrow> DefFileData \<Rightarrow> os_File \<times> status" where
  "addAppInstall u f app data =
     (let installCmd = (if app_InstallCmd app \<noteq> [] then app_InstallCmd app else ''make install'') in
      andThen
        (case DetectURLType u (app_Source app) of
           GitURL \<Rightarrow>
             wrap ''failed to write to definition file: ''
               (WriteString f (tab # ''cd /opt/$APPDIR'' @ '' && '' @ installCmd @ ''\<newline>''))
         | FileURL \<Rightarrow>
             (case InternalEnv data of
                None \<Rightarrow> (f, Panic)
              | Some e \<Rightarrow>
                  let containerSrcPath = filepath_Join (SrcDir e) (filepath_Base (app_Source app)) in
                  if app_BinPath app \<noteq> [] then
                    wrap ''failed to write to definition file: ''
                      (WriteString f (tab # ''cd /opt/$APPDIR && mpicc -o '' @ app_BinPath app @ '' '' @
                         containerSrcPath @ ''\<newline>''))
                  else if app_InstallCmd app \<noteq> [] then
                    wrap ''failed to write to definition file: ''
                      (WriteString f (tab # ''cd /opt/$APPDIR && '' @ app_InstallCmd app @ ''\<newline>''))
                  else (f, Failure (Errorf ''unable to figure out how to compile source file'')))
         | HttpURL \<Rightarrow>
             wrap ''failed to write to definition file: ''
               (WriteString f (tab # ''cd /opt/$APPDIR && '' @ installCmd @ ''\<newline>''))
         | UnknownURL \<Rightarrow> (f, Success))
        (\<lambda>f. wrap ''failed to write to definition file: ''
               (WriteString f (tab # ''cd /opt && ln -s $APPDIR/'' @ app_BinName app @ '' '' @
                  app_BinName app @ '' 2> /dev/null || true\<newline>\<newline>''))))"

definition addMPICleanup :: "os_File \<Rightarrow> app_Info \<Rightarrow> DefFileData \<Rightarrow> os_File \<times> status" where
  "addMPICleanup f app data =
     (if Model data = HybridModel then
        wrap ''failed to add MPI cleanup section: ''
          (WriteString f (''\<newline>'' @ tab # ''rm -rf $MPI_BUILDDIR\<newline>\<newline>''))
      else (f, Success))"

definition addDetectAppDir :: "os_File \<Rightarrow> app_Info \<Rightarrow> DefFileData \<Rightarrow> os_File \<times> status" where
  "addDetectAppDir f app data =
     wrap ''failed to add app env info: ''
       (WriteString f (tab # ''APPDIR=`ls -l /opt | egrep '' @ squote # ''^d'' @ squote #
          '' | head -1 | awk '' @ squote # ''{print $9}'' @ squote # ''`\<newline>\<newline>''))"

text \<open>
  \<^verbatim>\<open>addAppDownload\<close>. As in \<^verbatim>\<open>AddMPIInstall\<close>, the http(s) branch writes the flag that
  \<^verbatim>\<open>util.GetTarArgs\<close> returns and has no error for an unrecognised format.
\<close>

definition addAppDownload :: "util_pkg \<Rightarrow> os_File \<Rightarrow> app_Info \<Rightarrow> DefFileData \<Rightarrow> os_File \<times> status" where
  "addAppDownload u f app data =
     (case DetectURLType u (app_Source app) of
        GitURL \<Rightarrow>
          andThen (wrap ''failed to write to definition file: ''
                     (WriteString f (tab # ''cd /opt && git clone '' @ app_Source app @ ''\<newline>''))) (\<lambda>f.
          wrap ''failed to add code to get the directory of the app to the definition file: ''
            (addDetectAppDir f app data))
      | HttpURL \<Rightarrow>
          (let format = DetectTarballFormat u (app_Source app);
               tarArgs = GetTarArgs u format
           in
           andThen (wrap ''failed to write to definition file: ''
                      (WriteString f (tab # ''cd /opt && wget '' @ app_Source app @ '' && tar '' @ tarArgs @
                         '' '' @ path_Base (app_Source app) @ ''\<newline>''))) (\<lambda>f.
           wrap ''failed to add code to get the directory of the app to the definition file: ''
             (addDetectAppDir f app data)))
      | _ \<Rightarrow> (f, Success))"




definition addCleanUp :: "os_File \<Rightarrow> DefFileData \<Rightarrow> os_File \<times> status" where
  "addCleanUp f deffile =
     (if distro_Name (DistroID deffile) = ''centos'' then
        wrap ''failed to add cleanup section: '' (WriteString f (tab # ''apt-get clean\<newline>''))
      else if distro_Name (DistroID deffile) = ''ubuntu'' then
        wrap ''failed to add cleanup section: '' (WriteString f (tab # ''yum clean all\<newline>''))
      else (f, Success))"

section \<open>The hybrid assembly sequence\<close>

text \<open>
  The assembly threads the open file and the application descriptor: \<^verbatim>\<open>addLabels\<close> may
  change the descriptor, and every later builder receives the changed one. \<open>create\<close> is
  \<^verbatim>\<open>os.Create\<close> on the host (\<open>None\<close>: the file cannot be created). The result has the file
  as the sequence left it, when it was created.
\<close>

definition onFile :: "os_File \<times> status \<Rightarrow> app_Info \<Rightarrow> (os_File \<times> app_Info) \<times> status" where
  "onFile r app = ((fst r, app), snd r)"

text \<open>
  The files step of \<^verbatim>\<open>CreateHybridDefFile\<close>: the files section is built only for a
  source that \<^verbatim>\<open>util.DetectURLType\<close> takes for a file.
\<close>

definition hybridFilesStep ::
  "util_pkg \<Rightarrow> os_File \<Rightarrow> app_Info \<Rightarrow> DefFileData \<Rightarrow> sys_Config \<Rightarrow> (os_File \<times> app_Info) \<times> status" where
  "hybridFilesStep u f app data sysCfg =
     (if DetectURLType u (app_Source app) = FileURL
      then wrap ''failed to create the files section of the definition file: ''
             (onFile (createFilesSection u f app data sysCfg) app)
      else ((f, app), Success))"

definition CreateHybridDefFile ::
  "util_pkg \<Rightarrow> (distro_ID \<Rightarrow> sys_Config \<Rightarrow> string) \<Rightarrow> (string \<Rightarrow> os_File option) \<Rightarrow>
   app_Info \<Rightarrow> DefFileData \<Rightarrow> sys_Config \<Rightarrow> (os_File \<times> app_Info) option \<times> status" where
  "CreateHybridDefFile u GetBaseImageLibraryURL create app data sysCfg =
     (if Path data = [] then (None, Failure (Errorf ''invalid parameter(s)''))
      else
        case create (Path data) of
          None \<Rightarrow> (None, Failure (Wrapf (''failed to create '' @ Path data @ '': '') IOErr))
        | Some f \<Rightarrow>
            (case
               andThen (wrap ''failed to create the bootstrap section of the definition file: ''
                          (onFile (AddBootstrap GetBaseImageLibraryURL f data sysCfg) app)) (\<lambda>(f, app).
               andThen (wrap ''failed to create the labels section of the definition file: ''
                          (addLabels f app data)) (\<lambda>(f, app).
               andThen (hybridFilesStep u f app data sysCfg) (\<lambda>(f, app).
               andThen (wrap ''failed to create the environment section of the definition file: ''
                          (onFile (addMPIEnv f data) app)) (\<lambda>(f, app).
               andThen (wrap ''failed to add the code initializing the distro: ''
                          (onFile (addDistroInit f data sysCfg) app)) (\<lambda>(f, app).
               andThen (wrap ''failed to add the section to download the app: ''
                          (onFile (addAppDownload u f app data) app)) (\<lambda>(f, app).
               andThen (wrap ''failed to create the post section of the definition file: ''
                          (onFile (AddMPIInstall u f data) app)) (\<lambda>(f, app).
               andThen (wrap ''failed to create the post section of the definition file: ''
                          (onFile (addAppInstall u f app data) app)) (\<lambda>(f, app).
               wrap ''failed to add code to cleanup MPI files: ''
                 (onFile (addMPICleanup f app data) app)))))))))
             of (s, st) \<Rightarrow> (Some s, st)))"

section \<open>The shared-library dependency inspector\<close>






section \<open>The inspection parser\<close>






section \<open>The labels of an image and the inspection command\<close>








section \<open>Template substitution\<close>

text \<open>
  The five texts that \<^verbatim>\<open>UpdateDeffileTemplate\<close> searches for, in the order of its
  replacements, and the values it puts in their place.
\<close>

definition templateTags :: "DefFileData \<Rightarrow> string list" where
  "templateTags data =
     [tag_Version (Tags data), tag_URL (Tags data), tag_Tarball (Tags data), ''TARARGS'',
      distroCodenameTag]"

definition templateValues :: "DefFileData \<Rightarrow> implem_Info \<Rightarrow> string \<Rightarrow> string list" where
  "templateValues data m flag =
     [mpi_Version m, mpi_URL m, path_Base (mpi_URL m), flag, distro_Codename (DistroID data)]"

text \<open>
  \<open>substitutes ps s s'\<close>: the text \<open>s'\<close> is the text \<open>s\<close> with some occurrences of tags
  replaced by the values paired with them in \<open>ps\<close>, and every other byte kept.
\<close>

inductive substitutes :: "(string \<times> string) list \<Rightarrow> string \<Rightarrow> string \<Rightarrow> bool" for ps where
  substitutes_Nil: "substitutes ps [] []"
| substitutes_keep: "substitutes ps s s' \<Longrightarrow> substitutes ps (c # s) (c # s')"
| substitutes_tag: "(t, v) \<in> set ps \<Longrightarrow> substitutes ps s s' \<Longrightarrow> substitutes ps (t @ s) (v @ s')"

text \<open>
  A value put into a text can complete an occurrence of a search text that was not there
  before. \<open>overlaps v t\<close>: the value ends with a non-empty beginning of the search text.
  \<open>meets v t\<close>: the search text lies in the value, the value lies in the search text, the
  value ends with a beginning of the search text, or it begins with an end of it. A value
  that meets no search text is not empty. When none of this holds, no text around the value
  can make it part of an occurrence of the search text.
\<close>

definition overlaps :: "string \<Rightarrow> string \<Rightarrow> bool" where
  "overlaps v t \<longleftrightarrow> list_ex (\<lambda>x. x \<noteq> [] \<and> prefix x t) (suffixes v)"

definition meets :: "string \<Rightarrow> string \<Rightarrow> bool" where
  "meets v t \<longleftrightarrow> sublist t v \<or> sublist v t \<or> overlaps v t \<or> overlaps t v"

text \<open>
  An empty value removes the search text and joins what was on its two sides.
  \<open>joints gs\<close>, for the pieces \<open>gs\<close> that \<^verbatim>\<open>strings.Split\<close> cuts a text into: at each cut,
  the text to its left and the text to its right once all pieces are joined. \<open>spans t j\<close>:
  the search text has a non-empty beginning that ends the left text and a non-empty rest
  that begins the right text.
\<close>

fun joints :: "string list \<Rightarrow> (string \<times> string) list" where
  "joints [] = []"
| "joints [g] = []"
| "joints (g # gs) = (g, concat gs) # map (\<lambda>j. (g @ fst j, snd j)) (joints gs)"

definition spans :: "string \<Rightarrow> string \<times> string \<Rightarrow> bool" where
  "spans t j \<longleftrightarrow> list_ex (\<lambda>i. suffix (take i t) (fst j) \<and> prefix (drop i t) (snd j)) [1..<length t]"

text \<open>
  The condition on the values of one application to the template text \<open>d\<close>: the version,
  the URL, the tarball name and the extraction flag meet none of the five search texts; the
  codename meets none of them either, or it is empty and no search text spans a joint of
  the text in which \<^verbatim>\<open>UpdateDistroCodename\<close> removes the marker.
\<close>

definition clashFree :: "DefFileData \<Rightarrow> implem_Info \<Rightarrow> string \<Rightarrow> string \<Rightarrow> bool" where
  "clashFree data m flag d \<longleftrightarrow>
     list_all (\<lambda>v. list_all (\<lambda>t. \<not> meets v t) (templateTags data))
       [mpi_Version m, mpi_URL m, path_Base (mpi_URL m), flag] \<and>
     (if distro_Codename (DistroID data) = []
      then list_all (\<lambda>t. \<not> list_ex (spans t)
                            (joints (strings_Split (replaceTags data m (path_Base (mpi_URL m)) flag d)
                                       distroCodenameTag)))
             (templateTags data)
      else list_all (\<lambda>t. \<not> meets (distro_Codename (DistroID data)) t) (templateTags data))"

section \<open>Example inputs\<close>

text \<open>
  The descriptor of the spec's end-to-end scenario: Ubuntu 20.04 (focal), Open MPI 4.0.1
  from \<^verbatim>\<open>http://example/ompi-4.0.1.tar.gz\<close>, bind model; and an empty file without a
  size limit.
\<close>

definition scenarioA :: DefFileData where
  "scenarioA = \<lparr>Path = ''/tmp/app.def'',
     DistroID = \<lparr>distro_Name = ''ubuntu'', distro_Version = ''20.04'', distro_Codename = ''focal''\<rparr>,
     MpiImplm = Some \<lparr>mpi_ID = ''OMPI'', mpi_Version = ''4.0.1'', mpi_URL = ''http://example/ompi-4.0.1.tar.gz''\<rparr>,
     Tags = \<lparr>tag_Version = ''MPIVERSION'', tag_Tarball = ''MPITARBALL'', tag_URL = ''MPIURL'', tag_Dir = [],
              tag_InstallConffile = [], tag_UninstallConffile = [], tag_Ifnet = []\<rparr>,
     InternalEnv = Some \<lparr>InstallDir = ''/opt/mpi'', SrcDir = ''/opt/src'', BuildDir = ''/tmp/build''\<rparr>,
     Model = ''bind''\<rparr>"

definition centos7 :: distro_ID where
  "centos7 = \<lparr>distro_Name = ''centos'', distro_Version = ''7'', distro_Codename = []\<rparr>"

definition emptyFile :: os_File where
  "emptyFile = \<lparr>content = [], capacity = None\<rparr>"

text \<open>An implementation whose archive is a zip file, and an application fetched as one.\<close>

definition zipImplem :: implem_Info where
  "zipImplem = \<lparr>mpi_ID = ''OMPI'', mpi_Version = ''4.0.1'', mpi_URL = ''http://example/ompi-4.0.1.zip''\<rparr>"

definition zipApp :: app_Info where
  "zipApp = \<lparr>app_Name = ''app'', app_BinName = ''app'', app_BinPath = [],
             app_Source = ''http://example/app-1.0.zip'', app_InstallCmd = []\<rparr>"

text \<open>
  Applications: one built on the host for the bind model, one with a configured binary
  path for the hybrid model, and one without a binary path.
\<close>

definition bindApp :: app_Info where
  "bindApp = \<lparr>app_Name = ''mpitest'', app_BinName = ''mpitest'', app_BinPath = ''/home/user/mpitest'',
              app_Source = ''file:///home/user/mpitest.c'', app_InstallCmd = []\<rparr>"

definition hybridApp :: app_Info where
  "hybridApp = \<lparr>app_Name = ''mpitest'', app_BinName = ''mpitest'', app_BinPath = ''/opt/app/bin/mpitest'',
                app_Source = ''file:///home/user/mpitest.c'', app_InstallCmd = []\<rparr>"

definition sourceApp :: app_Info where
  "sourceApp = \<lparr>app_Name = ''mpitest'', app_BinName = ''mpitest'', app_BinPath = [],
                app_Source = ''file:///home/user/mpitest.c'', app_InstallCmd = ''make''\<rparr>"

definition scenarioHybrid :: DefFileData where
  "scenarioHybrid = scenarioA\<lparr>Model := ''hybrid''\<rparr>"







definition privileged :: sys_Config where
  "privileged = \<lparr>Nopriv = False, Debug = False\<rparr>"

text \<open>A registry without a base image, and a host on which the file can be created.\<close>

definition noLibraryImage :: "distro_ID \<Rightarrow> sys_Config \<Rightarrow> string" where
  "noLibraryImage d c = []"

definition createEmpty :: "string \<Rightarrow> os_File option" where
  "createEmpty p = Some emptyFile"

text \<open>Applications whose source is a local archive, with and without the file scheme.\<close>

definition archiveApp :: app_Info where
  "archiveApp = \<lparr>app_Name = ''app'', app_BinName = ''app'', app_BinPath = [],
                 app_Source = ''file:///home/user/app-1.0.tar.gz'', app_InstallCmd = ''make install''\<rparr>"

definition bareArchiveApp :: app_Info where
  "bareArchiveApp = archiveApp\<lparr>app_Source := ''/home/user/app-1.0.tar.gz''\<rparr>"

definition gitApp :: app_Info where
  "gitApp = archiveApp\<lparr>app_Source := ''https://example/user/app.git''\<rparr>"

section \<open>Lines of a fragment\<close>

text \<open>The number of lines of a text that start with a given prefix.\<close>

definition linesWithPrefix :: "string \<Rightarrow> string \<Rightarrow> nat" where
  "linesWithPrefix p s = length (filter (prefix p) (strings_Split s ''\<newline>''))"

text \<open>A distro identity whose codename holds a line break.\<close>

definition twoLineCodename :: distro_ID where
  "twoLineCodename = \<lparr>distro_Name = ''ubuntu'', distro_Version = ''20.04'',
                       distro_Codename = ''focal\<newline>Bootstrap: docker''\<rparr>"

text \<open>
  A registry that has a base image, an unprivileged run, and a distribution that is neither
  ubuntu nor centos.
\<close>

definition libraryImage :: "distro_ID \<Rightarrow> sys_Config \<Rightarrow> string" where
  "libraryImage d c = ''library://sylabs/examples/ubuntu''"

definition unprivileged :: sys_Config where
  "unprivileged = \<lparr>Nopriv = True, Debug = False\<rparr>"

definition debian10 :: distro_ID where
  "debian10 = \<lparr>distro_Name = ''debian'', distro_Version = ''10'', distro_Codename = ''buster''\<rparr>"

section \<open>Further example inputs\<close>

text \<open>An implementation whose URL holds the version tag of the scenario.\<close>

definition taggedImplem :: implem_Info where
  "taggedImplem = \<lparr>mpi_ID = ''OMPI'', mpi_Version = ''4.0.1'',
                    mpi_URL = ''http://example/ompi-MPIVERSION.tar.gz''\<rparr>"






section \<open>Writes and sequencing\<close>

lemma accepts_unlimited: "capacity f = None \<Longrightarrow> accepts f k"
  by (simp add: accepts_def)




lemma WriteString_Success_iff:
  "WriteString f s = (f', Success) \<longleftrightarrow> accepts f (length s) \<and> f' = f\<lparr>content := content f @ s\<rparr>"
  by (auto simp: WriteString_def)

lemma andThen_Success [simp]: "andThen (x, Success) k = k x"
  by (simp add: andThen_def)

lemma andThen_Failure [simp]: "andThen (x, Failure e) k = (x, Failure e)"
  by (simp add: andThen_def)

lemma andThen_Panic [simp]: "andThen (x, Panic) k = (x, Panic)"
  by (simp add: andThen_def)

lemma andThen_Success_iff:
  "andThen r k = (x', Success) \<longleftrightarrow> (\<exists>x. r = (x, Success) \<and> k x = (x', Success))"
  by (cases r; cases "snd r") (auto simp: andThen_def)

lemma wrap_simps [simp]:
  "wrap msg (x, Success) = (x, Success)"
  "wrap msg (x, Failure e) = (x, Failure (Wrapf msg e))"
  "wrap msg (x, Panic) = (x, Panic)"
  by (simp_all add: wrap_def)

lemma wrap_Success_iff: "wrap msg r = (x, Success) \<longleftrightarrow> r = (x, Success)"
  by (cases r; cases "snd r") (auto simp: wrap_def)

section \<open>The cleanup section\<close>

text \<open>
  Claim C1. The cleanup builder should write the apt clean command for ubuntu and the yum
  clean command for centos. The code has the two commands the other way round: for the
  ubuntu descriptor of the scenario it writes \<^verbatim>\<open>yum clean all\<close>, and for a centos
  descriptor it writes \<^verbatim>\<open>apt-get clean\<close>.
\<close>

theorem addCleanUp_swapped:
  "addCleanUp emptyFile scenarioA
     = (\<lparr>content = tab # ''yum clean all\<newline>'', capacity = None\<rparr>, Success) \<and>
   addCleanUp emptyFile (scenarioA\<lparr>DistroID := centos7\<rparr>)
     = (\<lparr>content = tab # ''apt-get clean\<newline>'', capacity = None\<rparr>, Success)"
  by (simp add: addCleanUp_def scenarioA_def centos7_def emptyFile_def WriteString_def accepts_def)

section \<open>Archive suffixes in the install and download sections\<close>

text \<open>
  Claim C2. An archive suffix that is not recognised should make the MPI-install builder
  and the http(s) branch of the app-download builder fail. Neither builder has such an
  error: for the zip archive \<^verbatim>\<open>http://example/ompi-4.0.1.zip\<close> and for the application
  archive \<^verbatim>\<open>http://example/app-1.0.zip\<close> the format is not recognised, and both builders
  succeed and write a \<^verbatim>\<open>tar\<close> command without a flag.
\<close>

theorem unknown_suffix_no_error:
  "spec_DetectTarballFormat ''ompi-4.0.1.zip'' = UnknownFormat \<and>
   AddMPIInstall util_spec emptyFile (scenarioA\<lparr>MpiImplm := Some zipImplem\<rparr>) =
     (\<lparr>content =
         tab # ''export MPI_VERSION=4.0.1\<newline>'' @
         tab # ''export MPI_URL='' @ dquote # ''http://example/ompi-4.0.1.zip'' @ dquote # ''\<newline>'' @
         tab # ''export MPI_DIR=/opt/mpi\<newline>'' @
         tab # ''export MPI_BUILDDIR=/opt/build-mpi\<newline>'' @
         tab # ''mkdir -p $MPI_BUILDDIR\<newline>\<newline>'' @
         tab # ''cd $MPI_BUILDDIR && wget $MPI_URL && tar  ompi-4.0.1.zip\<newline>'' @
         tab # ''cd $MPI_BUILDDIR/OMPI-$MPI_VERSION && ./configure --prefix=$MPI_DIR && make -j8 install\<newline>'' @
         tab # ''export PATH=$MPI_DIR/bin:$PATH\<newline>'' @
         tab # ''export LD_LIBRARY_PATH=$MPI_DIR/lib:$LD_LIBRARY_PATH\<newline>'' @
         tab # ''export MANPATH=$MPI_DIR/share/man:$MANPATH\<newline>\<newline>'',
       capacity = None\<rparr>, Success) \<and>
   spec_DetectTarballFormat ''http://example/app-1.0.zip'' = UnknownFormat \<and>
   spec_DetectURLType ''http://example/app-1.0.zip'' = HttpURL \<and>
   addAppDownload util_spec emptyFile zipApp scenarioA =
     (\<lparr>content =
         tab # ''cd /opt && wget http://example/app-1.0.zip && tar  app-1.0.zip\<newline>'' @
         tab # ''APPDIR=`ls -l /opt | egrep '' @ squote # ''^d'' @ squote #
           '' | head -1 | awk '' @ squote # ''{print $9}'' @ squote # ''`\<newline>\<newline>'',
       capacity = None\<rparr>, Success)"
  by (simp add: AddMPIInstall_def addAppDownload_def addDetectAppDir_def scenarioA_def zipImplem_def
      zipApp_def emptyFile_def util_spec_def spec_DetectTarballFormat_def spec_GetTarArgs_def
      spec_DetectURLType_def WriteString_def accepts_def path_Base_def lastElement_def
      stripTrailingSlashes_def suffix_def)

section \<open>The labels section\<close>

lemma WriteString_grows:
  "WriteString f s = (f', Success) \<Longrightarrow> content f' = content f @ s \<and> capacity f' = capacity f"
  by (auto simp: WriteString_Success_iff)

lemma labelsHeader_content:
  assumes "labelsHeader f app deffile = (f1, Success)"
  shows "\<exists>pre. content f1 = content f @ pre \<and> pre \<noteq> [] \<and> last pre = CHR 0x0A"
proof -
  have "prefix (content f) (content f1) \<and> content f1 \<noteq> content f \<and> last (content f1) = CHR 0x0A"
    using assms unfolding labelsHeader_def
    by (auto simp: andThen_Success_iff WriteString_Success_iff split: option.splits if_splits)
  then obtain pre where "content f1 = content f @ pre" "pre \<noteq> []" "last (content f1) = CHR 0x0A"
    by (auto elim!: prefixE)
  then show ?thesis by (intro exI[of _ pre]) auto
qed

lemma labelsHeader_unlimited:
  "capacity f = None \<Longrightarrow> \<exists>f1. labelsHeader f app deffile = (f1, Success) \<and> capacity f1 = None"
  unfolding labelsHeader_def
  by (simp add: WriteString_def accepts_def split: option.splits)

text \<open>
  Claim C7. In the labels section the line of the executable is the last line written:
  under the bind model it is \<^verbatim>\<open>App_exe /opt/<binary-name>\<close>; under the hybrid model
  with a non-empty binary path it is \<^verbatim>\<open>App_exe <that path>\<close>, unchanged. What precedes it
  ends with a line break, so the value is the whole rest of the line. A file without a size
  limit takes every write, so the builder succeeds on it.
\<close>

theorem addLabels_App_exe:
  "(capacity f = None \<longrightarrow> snd (addLabels f app deffile) = Success) \<and>
   (\<forall>f' app'. addLabels f app deffile = ((f', app'), Success) \<longrightarrow>
      (Model deffile = BindModel \<longrightarrow>
         (\<exists>pre. content f' = content f @ pre @ tab # ''App_exe /opt/'' @ app_BinName app @ ''\<newline>\<newline>'' \<and>
                last pre = CHR 0x0A)) \<and>
      (Model deffile = HybridModel \<and> app_BinPath app \<noteq> [] \<longrightarrow>
         (\<exists>pre. content f' = content f @ pre @ tab # ''App_exe '' @ app_BinPath app @ ''\<newline>\<newline>'' \<and>
                last pre = CHR 0x0A)))"
proof (intro conjI allI impI)
  assume "capacity f = None"
  then obtain f1 where "labelsHeader f app deffile = (f1, Success)" "capacity f1 = None"
    using labelsHeader_unlimited by blast
  then show "snd (addLabels f app deffile) = Success"
    by (simp add: addLabels_def WriteString_def accepts_def Let_def)
next
  fix f' app'
  assume ok: "addLabels f app deffile = ((f', app'), Success)" and bind: "Model deffile = BindModel"
  from ok obtain f1 where h: "labelsHeader f app deffile = (f1, Success)"
    unfolding addLabels_def by (auto split: prod.splits status.splits)
  from labelsHeader_content[OF h] obtain pre where
    pre: "content f1 = content f @ pre" "last pre = CHR 0x0A" by blast
  from ok h bind have "content f' = content f1 @ tab # ''App_exe /opt/'' @ app_BinName app @ ''\<newline>\<newline>''"
    unfolding addLabels_def
    by (auto simp: andThen_Success_iff WriteString_Success_iff split: prod.splits)
  with pre show "\<exists>pre. content f' = content f @ pre @ tab # ''App_exe /opt/'' @ app_BinName app @ ''\<newline>\<newline>'' \<and>
                last pre = CHR 0x0A"
    by (intro exI[of _ pre]) simp
next
  fix f' app'
  assume ok: "addLabels f app deffile = ((f', app'), Success)"
    and hyb: "Model deffile = HybridModel \<and> app_BinPath app \<noteq> []"
  from ok obtain f1 where h: "labelsHeader f app deffile = (f1, Success)"
    unfolding addLabels_def by (auto split: prod.splits status.splits)
  from labelsHeader_content[OF h] obtain pre where
    pre: "content f1 = content f @ pre" "last pre = CHR 0x0A" by blast
  from ok h hyb have "content f' = content f1 @ tab # ''App_exe '' @ app_BinPath app @ ''\<newline>\<newline>''"
    unfolding addLabels_def
    by (auto simp: andThen_Success_iff WriteString_Success_iff HybridModel_def BindModel_def split: prod.splits)
  with pre show "\<exists>pre. content f' = content f @ pre @ tab # ''App_exe '' @ app_BinPath app @ ''\<newline>\<newline>'' \<and>
                last pre = CHR 0x0A"
    by (intro exI[of _ pre]) simp
qed

theorem addLabels_App_exe_witness:
  "snd (addLabels emptyFile bindApp scenarioA) = Success \<and>
   (\<exists>pre. content (fst (fst (addLabels emptyFile bindApp scenarioA)))
            = pre @ tab # ''App_exe /opt/mpitest\<newline>\<newline>'' \<and> last pre = CHR 0x0A) \<and>
   snd (addLabels emptyFile hybridApp scenarioHybrid) = Success \<and>
   (\<exists>pre. content (fst (fst (addLabels emptyFile hybridApp scenarioHybrid)))
            = pre @ tab # ''App_exe /opt/app/bin/mpitest\<newline>\<newline>'' \<and> last pre = CHR 0x0A)"
proof -
  have c: "capacity emptyFile = None" by (simp add: emptyFile_def)
  note B = addLabels_App_exe[of emptyFile bindApp scenarioA]
  note H = addLabels_App_exe[of emptyFile hybridApp scenarioHybrid]
  from B c have sb: "snd (addLabels emptyFile bindApp scenarioA) = Success" by blast
  from H c have sh: "snd (addLabels emptyFile hybridApp scenarioHybrid) = Success" by blast
  have mb: "Model scenarioA = BindModel" by (simp add: scenarioA_def BindModel_def)
  have mh: "Model scenarioHybrid = HybridModel \<and> app_BinPath hybridApp \<noteq> []"
    by (simp add: scenarioHybrid_def scenarioA_def HybridModel_def hybridApp_def)
  from sb have eb: "addLabels emptyFile bindApp scenarioA
      = ((fst (fst (addLabels emptyFile bindApp scenarioA)), snd (fst (addLabels emptyFile bindApp scenarioA))), Success)"
    by (metis prod.collapse)
  from sh have eh: "addLabels emptyFile hybridApp scenarioHybrid
      = ((fst (fst (addLabels emptyFile hybridApp scenarioHybrid)), snd (fst (addLabels emptyFile hybridApp scenarioHybrid))), Success)"
    by (metis prod.collapse)
  from B eb mb have "\<exists>pre. content (fst (fst (addLabels emptyFile bindApp scenarioA)))
      = content emptyFile @ pre @ tab # ''App_exe /opt/'' @ app_BinName bindApp @ ''\<newline>\<newline>'' \<and> last pre = CHR 0x0A"
    by blast
  then have rb: "\<exists>pre. content (fst (fst (addLabels emptyFile bindApp scenarioA)))
            = pre @ tab # ''App_exe /opt/mpitest\<newline>\<newline>'' \<and> last pre = CHR 0x0A"
    by (simp add: emptyFile_def bindApp_def)
  from H eh mh have "\<exists>pre. content (fst (fst (addLabels emptyFile hybridApp scenarioHybrid)))
      = content emptyFile @ pre @ tab # ''App_exe '' @ app_BinPath hybridApp @ ''\<newline>\<newline>'' \<and> last pre = CHR 0x0A"
    by blast
  then have rh: "\<exists>pre. content (fst (fst (addLabels emptyFile hybridApp scenarioHybrid)))
            = pre @ tab # ''App_exe /opt/app/bin/mpitest\<newline>\<newline>'' \<and> last pre = CHR 0x0A"
    by (simp add: emptyFile_def hybridApp_def)
  from sb rb sh rh show ?thesis by blast
qed

section \<open>The dependency inspector and the dependency section\<close>




section \<open>The hybrid assembly: the binary path after the labels section\<close>

lemma andThen_Failure_iff:
  "andThen r k = (x, Failure e) \<longleftrightarrow>
     r = (x, Failure e) \<or> (\<exists>y. r = (y, Success) \<and> k y = (x, Failure e))"
  by (cases r; cases "snd r") (auto simp: andThen_def)

lemma wrap_Failure_iff:
  "wrap msg r = (x, Failure e) \<longleftrightarrow> (\<exists>e'. r = (x, Failure e') \<and> e = Wrapf msg e')"
  by (cases r; cases "snd r") (auto simp: wrap_def)

lemma WriteString_Failure_iff:
  "WriteString f s = (f', Failure e) \<longleftrightarrow>
     \<not> accepts f (length s) \<and> f' = f\<lparr>content := content f @ take (room f) s\<rparr> \<and> e = IOErr"
  by (auto simp: WriteString_def)

lemma onFile_eq: "onFile r app = ((f, a), st) \<longleftrightarrow> r = (f, st) \<and> a = app"
  by (cases r) (auto simp: onFile_def)

lemma addLabels_BinPath:
  assumes "addLabels f app data = ((f1, app1), Success)" and "Model data \<noteq> BindModel"
  shows "app1 = app\<lparr>app_BinPath := (if app_BinPath app = [] then ''/opt/'' @ app_BinName app
                                       else app_BinPath app)\<rparr>"
  using assms unfolding addLabels_def
  by (auto simp: Let_def split: prod.splits status.splits if_splits)

lemma AddMPIInstall_Failure: "AddMPIInstall u f d = (x, Failure e) \<Longrightarrow> e = IOErr"
  unfolding AddMPIInstall_def
  by (auto simp: andThen_Failure_iff WriteString_Failure_iff Let_def split: option.splits)

lemma AddMPIInstall_Success_last:
  "AddMPIInstall u f d = (f', Success) \<Longrightarrow> content f' \<noteq> [] \<and> last (content f') = CHR 0x0A"
  unfolding AddMPIInstall_def
  by (auto simp: andThen_Success_iff WriteString_Success_iff Let_def split: option.splits)

lemma addAppInstall_file_mpicc:
  assumes "DetectURLType u (app_Source app) = FileURL" and "app_BinPath app \<noteq> []"
  shows "(addAppInstall u f app data = (f', Success) \<longrightarrow>
            (\<exists>env. InternalEnv data = Some env \<and>
               content f' = content f @
                 tab # ''cd /opt/$APPDIR && mpicc -o '' @ app_BinPath app @ '' '' @
                   filepath_Join (SrcDir env) (filepath_Base (app_Source app)) @ ''\<newline>'' @
                 tab # ''cd /opt && ln -s $APPDIR/'' @ app_BinName app @ '' '' @ app_BinName app @
                   '' 2> /dev/null || true\<newline>\<newline>'')) \<and>
         addAppInstall u f app data \<noteq> (f', Failure (Errorf ''unable to figure out how to compile source file''))"
  using assms unfolding addAppInstall_def
  by (auto simp: andThen_Success_iff andThen_Failure_iff wrap_Success_iff wrap_Failure_iff
      WriteString_Success_iff Let_def split: option.splits)


lemma hybridFilesStep_app:
  "hybridFilesStep u f app data sysCfg = ((f', a), st) \<Longrightarrow> a = app"
  unfolding hybridFilesStep_def
  by (cases "createFilesSection u f app data sysCfg")
     (auto simp: onFile_def wrap_def split: if_splits status.splits)

lemma hybridFilesStep_Failure:
  "hybridFilesStep u f app data sysCfg = (x, Failure e) \<Longrightarrow>
     \<exists>e'. e = Wrapf ''failed to create the files section of the definition file: '' e'"
  unfolding hybridFilesStep_def
  by (auto simp: wrap_Failure_iff split: if_splits)

lemma CreateHybridDefFile_SuccessD:
  assumes "CreateHybridDefFile u g create app data sysCfg = (Some (f', app'), Success)"
  shows "\<exists>f1 f2 app1 f6 f7 f8.
           addLabels f1 app data = ((f2, app1), Success) \<and>
           AddMPIInstall u f6 data = (f7, Success) \<and>
           addAppInstall u f7 app1 data = (f8, Success) \<and>
           addMPICleanup f8 app1 data = (f', Success) \<and> app' = app1"
proof -
  from assms obtain f0 where c: "create (Path data) = Some f0" and p: "Path data \<noteq> []"
    unfolding CreateHybridDefFile_def by (auto split: if_splits option.splits)
  from assms c p show ?thesis
    unfolding CreateHybridDefFile_def
    apply (simp split: prod.splits)
    apply (clarsimp simp: andThen_Success_iff wrap_Success_iff onFile_eq)
    apply (frule hybridFilesStep_app)
    apply (clarsimp simp: andThen_Success_iff wrap_Success_iff onFile_eq)
    apply blast
    done
qed


lemma CreateHybridDefFile_FailureD:
  assumes "CreateHybridDefFile u g create app data sysCfg =
             (w, Failure (Wrapf ''failed to create the post section of the definition file: '' (Errorf msg)))"
  shows "\<exists>f1 f2 app1 f7 f8.
           addLabels f1 app data = ((f2, app1), Success) \<and>
           addAppInstall u f7 app1 data = (f8, Failure (Errorf msg))"
proof -
  from assms obtain f0 where c: "create (Path data) = Some f0" and p: "Path data \<noteq> []"
    unfolding CreateHybridDefFile_def by (auto split: if_splits option.splits)
  from assms c p show ?thesis
    unfolding CreateHybridDefFile_def
    apply (simp split: prod.splits)
    apply (clarsimp simp: andThen_Failure_iff wrap_Failure_iff onFile_eq wrap_Success_iff)
    apply (elim disjE exE conjE)
    subgoal by (drule hybridFilesStep_Failure) simp
    subgoal by (drule AddMPIInstall_Failure) simp
    subgoal by (frule hybridFilesStep_app) blast
    done
qed


lemma addMPICleanup_Success:
  "addMPICleanup f app data = (f', Success) \<Longrightarrow>
     content f' = content f @ (if Model data = HybridModel
                               then ''\<newline>'' @ tab # ''rm -rf $MPI_BUILDDIR\<newline>\<newline>'' else [])"
  unfolding addMPICleanup_def
  by (auto simp: wrap_Success_iff WriteString_Success_iff split: if_splits)

text \<open>
  Claim C10. Outside the bind model a successful \<^verbatim>\<open>addLabels\<close> returns the application
  descriptor with a non-empty binary path: the configured one, or \<^verbatim>\<open>/opt/<binary-name>\<close>
  when none was configured. \<^verbatim>\<open>CreateHybridDefFile\<close> hands that descriptor to every later
  builder. So for a file source the hybrid assembly never ends in the cannot-compile error
  of the App Install builder, and when it succeeds the line written by App Install (after
  the MPI install lines, before the symlink line) is the direct \<^verbatim>\<open>mpicc\<close> compilation
  with that binary path, whatever the install command is.
\<close>

theorem labels_default_reaches_app_install:
  assumes "Model data \<noteq> BindModel"
  shows "(\<forall>f0 f1 app1. addLabels f0 app data = ((f1, app1), Success) \<longrightarrow>
            app1 = app\<lparr>app_BinPath := (if app_BinPath app = [] then ''/opt/'' @ app_BinName app
                                           else app_BinPath app)\<rparr> \<and>
            app_BinPath app1 \<noteq> []) \<and>
         (DetectURLType u (app_Source app) = FileURL \<longrightarrow>
            snd (CreateHybridDefFile u g create app data sysCfg) \<noteq>
              Failure (Wrapf ''failed to create the post section of the definition file: ''
                         (Errorf ''unable to figure out how to compile source file'')) \<and>
            (\<forall>f' app'. CreateHybridDefFile u g create app data sysCfg = (Some (f', app'), Success) \<longrightarrow>
               (\<exists>pre env. InternalEnv data = Some env \<and> last pre = CHR 0x0A \<and>
                  content f' = pre @
                    tab # ''cd /opt/$APPDIR && mpicc -o '' @
                      (if app_BinPath app = [] then ''/opt/'' @ app_BinName app else app_BinPath app) @ '' '' @
                      filepath_Join (SrcDir env) (filepath_Base (app_Source app)) @ ''\<newline>'' @
                    tab # ''cd /opt && ln -s $APPDIR/'' @ app_BinName app @ '' '' @ app_BinName app @
                      '' 2> /dev/null || true\<newline>\<newline>'' @
                    (if Model data = HybridModel
                     then ''\<newline>'' @ tab # ''rm -rf $MPI_BUILDDIR\<newline>\<newline>'' else []))))"
proof (intro conjI allI impI)
  fix f0 f1 app1
  assume ok: "addLabels f0 app data = ((f1, app1), Success)"
  from addLabels_BinPath[OF ok assms]
  show "app1 = app\<lparr>app_BinPath := (if app_BinPath app = [] then ''/opt/'' @ app_BinName app
                                           else app_BinPath app)\<rparr>" .
  then show "app_BinPath app1 \<noteq> []" by simp
next
  assume isfile: "DetectURLType u (app_Source app) = FileURL"
  show "snd (CreateHybridDefFile u g create app data sysCfg) \<noteq>
              Failure (Wrapf ''failed to create the post section of the definition file: ''
                         (Errorf ''unable to figure out how to compile source file''))"
  proof
    assume "snd (CreateHybridDefFile u g create app data sysCfg) =
              Failure (Wrapf ''failed to create the post section of the definition file: ''
                         (Errorf ''unable to figure out how to compile source file''))"
    then have "CreateHybridDefFile u g create app data sysCfg =
        (fst (CreateHybridDefFile u g create app data sysCfg),
         Failure (Wrapf ''failed to create the post section of the definition file: ''
                         (Errorf ''unable to figure out how to compile source file'')))"
      by (metis prod.collapse)
    from CreateHybridDefFile_FailureD[OF this] obtain f1 f2 app1 f7 f8 where
      l: "addLabels f1 app data = ((f2, app1), Success)" and
      i: "addAppInstall u f7 app1 data = (f8, Failure (Errorf ''unable to figure out how to compile source file''))"
      by blast
    from addLabels_BinPath[OF l assms] have "app_BinPath app1 \<noteq> []" "app_Source app1 = app_Source app"
      by (cases "app_BinPath app = []"; simp)+
    with addAppInstall_file_mpicc[of u app1 f7 data f8] isfile i show False by simp
  qed
next
  fix f' app'
  assume isfile: "DetectURLType u (app_Source app) = FileURL"
    and ok: "CreateHybridDefFile u g create app data sysCfg = (Some (f', app'), Success)"
  from CreateHybridDefFile_SuccessD[OF ok] obtain f1 f2 f6 f7 f8 where
    l: "addLabels f1 app data = ((f2, app'), Success)" and
    m: "AddMPIInstall u f6 data = (f7, Success)" and
    i: "addAppInstall u f7 app' data = (f8, Success)" and
    c: "addMPICleanup f8 app' data = (f', Success)" by blast
  let ?bp = "(if app_BinPath app = [] then ''/opt/'' @ app_BinName app else app_BinPath app)"
  from addLabels_BinPath[OF l assms] have a: "app_BinPath app' = ?bp" "app_BinPath app' \<noteq> []"
      "app_Source app' = app_Source app" "app_BinName app' = app_BinName app"
    by (cases "app_BinPath app = []"; simp)+
  from addAppInstall_file_mpicc[of u app' f7 data f8] isfile a i obtain env where
    e: "InternalEnv data = Some env" and
    c8: "content f8 = content f7 @
                 tab # ''cd /opt/$APPDIR && mpicc -o '' @ ?bp @ '' '' @
                   filepath_Join (SrcDir env) (filepath_Base (app_Source app)) @ ''\<newline>'' @
                 tab # ''cd /opt && ln -s $APPDIR/'' @ app_BinName app @ '' '' @ app_BinName app @
                   '' 2> /dev/null || true\<newline>\<newline>''"
    by auto
  from AddMPIInstall_Success_last[OF m] have lst: "last (content f7) = CHR 0x0A" by simp
  from addMPICleanup_Success[OF c] c8 e lst
  show "\<exists>pre env. InternalEnv data = Some env \<and> last pre = CHR 0x0A \<and>
                  content f' = pre @
                    tab # ''cd /opt/$APPDIR && mpicc -o '' @ ?bp @ '' '' @
                      filepath_Join (SrcDir env) (filepath_Base (app_Source app)) @ ''\<newline>'' @
                    tab # ''cd /opt && ln -s $APPDIR/'' @ app_BinName app @ '' '' @ app_BinName app @
                      '' 2> /dev/null || true\<newline>\<newline>'' @
                    (if Model data = HybridModel
                     then ''\<newline>'' @ tab # ''rm -rf $MPI_BUILDDIR\<newline>\<newline>'' else [])"
    by (intro exI[of _ "content f7"] exI[of _ env]) simp
qed


lemma hybrid_source_run:
  "snd (CreateHybridDefFile util_spec noLibraryImage createEmpty sourceApp scenarioHybrid privileged) = Success \<and>
   fst (CreateHybridDefFile util_spec noLibraryImage createEmpty sourceApp scenarioHybrid privileged) \<noteq> None"
  by (simp add: CreateHybridDefFile_def hybridFilesStep_def createFilesSection_def AddBootstrap_def
      addDebootstrapBootstrap_def addLabels_def labelsHeader_def addMPIEnv_def addDistroInit_def
      addAppDownload_def AddMPIInstall_def addAppInstall_def addMPICleanup_def onFile_def
      noLibraryImage_def createEmpty_def emptyFile_def sourceApp_def scenarioHybrid_def scenarioA_def
      privileged_def util_spec_def spec_DetectURLType_def spec_DetectTarballFormat_def spec_GetTarArgs_def
      WriteString_def accepts_def HybridModel_def BindModel_def Let_def suffix_def sublist_Cons_right
      strings_Replace_def path_Base_def lastElement_def stripTrailingSlashes_def)

theorem labels_default_reaches_app_install_witness:
  "\<exists>f' app'. CreateHybridDefFile util_spec noLibraryImage createEmpty sourceApp scenarioHybrid privileged
        = (Some (f', app'), Success) \<and>
      app_BinPath app' = ''/opt/mpitest'' \<and>
      (\<exists>pre. last pre = CHR 0x0A \<and>
         content f' = pre @
           tab # ''cd /opt/$APPDIR && mpicc -o /opt/mpitest /opt/src/mpitest.c\<newline>'' @
           tab # ''cd /opt && ln -s $APPDIR/mpitest mpitest 2> /dev/null || true\<newline>\<newline>'' @
           ''\<newline>'' @ tab # ''rm -rf $MPI_BUILDDIR\<newline>\<newline>'')"
proof -
  let ?r = "CreateHybridDefFile util_spec noLibraryImage createEmpty sourceApp scenarioHybrid privileged"
  from hybrid_source_run obtain f' app' where r: "?r = (Some (f', app'), Success)"
    by (cases ?r) auto
  have m: "Model scenarioHybrid \<noteq> BindModel"
    by (simp add: scenarioHybrid_def scenarioA_def BindModel_def)
  have hm: "Model scenarioHybrid = HybridModel"
    by (simp add: scenarioHybrid_def scenarioA_def HybridModel_def)
  have u: "DetectURLType util_spec (app_Source sourceApp) = FileURL"
    by (simp add: util_spec_def sourceApp_def spec_DetectURLType_def suffix_def)
  have env: "InternalEnv scenarioHybrid = Some \<lparr>InstallDir = ''/opt/mpi'', SrcDir = ''/opt/src'', BuildDir = ''/tmp/build''\<rparr>"
    by (simp add: scenarioHybrid_def scenarioA_def)
  have j: "filepath_Join ''/opt/src'' (filepath_Base (app_Source sourceApp)) = ''/opt/src/mpitest.c''"
    by (simp add: sourceApp_def filepath_Join_def filepath_Base_def path_Base_def lastElement_def
        stripTrailingSlashes_def filepath_Clean_def strings_Split_def cleanStep_def Let_def)
  note T = labels_default_reaches_app_install[OF m, of sourceApp util_spec noLibraryImage createEmpty privileged]
  from T u r env obtain pre where
    p: "last pre = CHR 0x0A" and
    c: "content f' = pre @
           tab # ''cd /opt/$APPDIR && mpicc -o '' @
             (if app_BinPath sourceApp = [] then ''/opt/'' @ app_BinName sourceApp else app_BinPath sourceApp) @ '' '' @
             filepath_Join (SrcDir \<lparr>InstallDir = ''/opt/mpi'', SrcDir = ''/opt/src'', BuildDir = ''/tmp/build''\<rparr>)
               (filepath_Base (app_Source sourceApp)) @ ''\<newline>'' @
           tab # ''cd /opt && ln -s $APPDIR/'' @ app_BinName sourceApp @ '' '' @ app_BinName sourceApp @
             '' 2> /dev/null || true\<newline>\<newline>'' @
           (if Model scenarioHybrid = HybridModel
            then ''\<newline>'' @ tab # ''rm -rf $MPI_BUILDDIR\<newline>\<newline>'' else [])"
    by fastforce
  from CreateHybridDefFile_SuccessD[OF r] obtain f1 f2 where
    l: "addLabels f1 sourceApp scenarioHybrid = ((f2, app'), Success)" by blast
  from T l have "app' = sourceApp\<lparr>app_BinPath := (if app_BinPath sourceApp = []
      then ''/opt/'' @ app_BinName sourceApp else app_BinPath sourceApp)\<rparr>"
    by blast
  then have b: "app_BinPath app' = ''/opt/mpitest''"
    by (simp add: sourceApp_def)
  from c j hm have c': "content f' = pre @
           tab # ''cd /opt/$APPDIR && mpicc -o /opt/mpitest /opt/src/mpitest.c\<newline>'' @
           tab # ''cd /opt && ln -s $APPDIR/mpitest mpitest 2> /dev/null || true\<newline>\<newline>'' @
           ''\<newline>'' @ tab # ''rm -rf $MPI_BUILDDIR\<newline>\<newline>''"
    by (simp add: sourceApp_def)
  from r b p c' show ?thesis by blast
qed

section \<open>The files step of the hybrid assembly\<close>

lemma createFilesSection_hybrid_Success:
  assumes "Model data = HybridModel"
  shows "createFilesSection u f app data sysCfg = (f', Success) \<longleftrightarrow>
           (if DetectTarballFormat u (app_Source app) = UnknownFormat
            then accepts f (length (''%files\<newline>'' @ tab # strings_Replace (app_Source app) ''file://'' [] 1 @ '' /opt\<newline>\<newline>'')) \<and>
                 f' = f\<lparr>content := content f @ ''%files\<newline>'' @
                        tab # strings_Replace (app_Source app) ''file://'' [] 1 @ '' /opt\<newline>\<newline>''\<rparr>
            else accepts f (length ''%files\<newline>'') \<and> f' = f\<lparr>content := content f @ ''%files\<newline>''\<rparr>)"
  using assms unfolding createFilesSection_def
  by (auto simp: andThen_Success_iff wrap_Success_iff WriteString_Success_iff HybridModel_def
      BindModel_def accepts_def Let_def split: option.splits)

text \<open>
  Claim C8, as amended. Under the hybrid model the files step of the assembly stages the
  source (writes the line that copies it to \<^verbatim>\<open>/opt\<close>) if and only if the source is a file
  reference and its name is not recognised as an archive. For a file reference with an
  archive name only the \<^verbatim>\<open>%files\<close> header is written; for any other source (git,
  http(s)) nothing is written. The step succeeds on a file without a size limit.
\<close>

theorem hybrid_files_staging:
  assumes "Model data = HybridModel"
  shows "(capacity f = None \<longrightarrow> snd (hybridFilesStep u f app data sysCfg) = Success) \<and>
         (\<forall>f' app'. hybridFilesStep u f app data sysCfg = ((f', app'), Success) \<longrightarrow>
            app' = app \<and>
            content f' = content f @
              (if DetectURLType u (app_Source app) = FileURL
               then ''%files\<newline>'' @
                    (if DetectTarballFormat u (app_Source app) = UnknownFormat
                     then tab # strings_Replace (app_Source app) ''file://'' [] 1 @ '' /opt\<newline>\<newline>''
                     else [])
               else []))"
proof (intro conjI allI impI)
  assume c: "capacity f = None"
  obtain f' where "createFilesSection u f app data sysCfg = (f', Success)"
    using createFilesSection_hybrid_Success[OF assms, of u f app sysCfg] c
    by (cases "DetectTarballFormat u (app_Source app) = UnknownFormat") (auto simp: accepts_def)
  then show "snd (hybridFilesStep u f app data sysCfg) = Success"
    by (simp add: hybridFilesStep_def onFile_def)
next
  fix f' app'
  assume ok: "hybridFilesStep u f app data sysCfg = ((f', app'), Success)"
  then show "app' = app" by (rule hybridFilesStep_app)
  show "content f' = content f @
              (if DetectURLType u (app_Source app) = FileURL
               then ''%files\<newline>'' @
                    (if DetectTarballFormat u (app_Source app) = UnknownFormat
                     then tab # strings_Replace (app_Source app) ''file://'' [] 1 @ '' /opt\<newline>\<newline>''
                     else [])
               else [])"
  proof (cases "DetectURLType u (app_Source app) = FileURL")
    case True
    with ok have "createFilesSection u f app data sysCfg = (f', Success)"
      by (simp add: hybridFilesStep_def wrap_Success_iff onFile_eq)
    with createFilesSection_hybrid_Success[OF assms, of u f app sysCfg f'] True
    show ?thesis by (auto split: if_splits)
  next
    case False
    with ok show ?thesis by (simp add: hybridFilesStep_def)
  qed
qed

text \<open>
  The claim as stated fails for a local archive: the source is a file reference, with or
  without the file scheme, and the files step writes the header and no staging line.
\<close>

theorem local_archive_not_staged:
  "DetectURLType util_spec (app_Source archiveApp) = FileURL \<and>
   hybridFilesStep util_spec emptyFile archiveApp scenarioHybrid privileged
     = ((emptyFile\<lparr>content := ''%files\<newline>''\<rparr>, archiveApp), Success) \<and>
   DetectURLType util_spec (app_Source bareArchiveApp) = FileURL \<and>
   hybridFilesStep util_spec emptyFile bareArchiveApp scenarioHybrid privileged
     = ((emptyFile\<lparr>content := ''%files\<newline>''\<rparr>, bareArchiveApp), Success)"
  by (simp add: hybridFilesStep_def createFilesSection_def onFile_def util_spec_def
      spec_DetectURLType_def spec_DetectTarballFormat_def archiveApp_def bareArchiveApp_def
      scenarioHybrid_def scenarioA_def emptyFile_def WriteString_def accepts_def HybridModel_def
      BindModel_def suffix_def sublist_Cons_right)


theorem hybrid_files_staging_witness:
  "content (fst (fst (hybridFilesStep util_spec emptyFile sourceApp scenarioHybrid privileged)))
     = ''%files\<newline>'' @ tab # ''/home/user/mpitest.c /opt\<newline>\<newline>'' \<and>
   content (fst (fst (hybridFilesStep util_spec emptyFile archiveApp scenarioHybrid privileged)))
     = ''%files\<newline>'' \<and>
   content (fst (fst (hybridFilesStep util_spec emptyFile gitApp scenarioHybrid privileged))) = []"
proof -
  have hm: "Model scenarioHybrid = HybridModel"
    by (simp add: scenarioHybrid_def scenarioA_def HybridModel_def)
  have c: "capacity emptyFile = None" by (simp add: emptyFile_def)
  note S = hybrid_files_staging[OF hm, of emptyFile util_spec sourceApp privileged]
  note A = hybrid_files_staging[OF hm, of emptyFile util_spec archiveApp privileged]
  note G = hybrid_files_staging[OF hm, of emptyFile util_spec gitApp privileged]
  have s: "DetectURLType util_spec (app_Source sourceApp) = FileURL"
          "DetectTarballFormat util_spec (app_Source sourceApp) = UnknownFormat"
          "strings_Replace (app_Source sourceApp) ''file://'' [] 1 = ''/home/user/mpitest.c''"
    by (simp_all add: util_spec_def sourceApp_def spec_DetectURLType_def spec_DetectTarballFormat_def
        suffix_def strings_Replace_def)
  have a: "DetectURLType util_spec (app_Source archiveApp) = FileURL"
          "DetectTarballFormat util_spec (app_Source archiveApp) \<noteq> UnknownFormat"
    by (simp_all add: util_spec_def archiveApp_def spec_DetectURLType_def spec_DetectTarballFormat_def
        suffix_def)
  have g: "DetectURLType util_spec (app_Source gitApp) \<noteq> FileURL"
    by (simp add: util_spec_def gitApp_def archiveApp_def spec_DetectURLType_def suffix_def)
  let ?s = "hybridFilesStep util_spec emptyFile sourceApp scenarioHybrid privileged"
  let ?a = "hybridFilesStep util_spec emptyFile archiveApp scenarioHybrid privileged"
  let ?g = "hybridFilesStep util_spec emptyFile gitApp scenarioHybrid privileged"
  from S c have "snd ?s = Success" by blast
  then obtain fs xs where es: "?s = ((fs, xs), Success)" by (cases ?s; cases "fst ?s") auto
  from S es have "content fs = content emptyFile @
              (if DetectURLType util_spec (app_Source sourceApp) = FileURL
               then ''%files\<newline>'' @
                    (if DetectTarballFormat util_spec (app_Source sourceApp) = UnknownFormat
                     then tab # strings_Replace (app_Source sourceApp) ''file://'' [] 1 @ '' /opt\<newline>\<newline>''
                     else [])
               else [])" by blast
  then have "content fs = ''%files\<newline>'' @ tab # ''/home/user/mpitest.c /opt\<newline>\<newline>''"
    by (simp add: s emptyFile_def)
  with es have r1: "content (fst (fst ?s)) = ''%files\<newline>'' @ tab # ''/home/user/mpitest.c /opt\<newline>\<newline>''"
    by simp
  from A c have "snd ?a = Success" by blast
  then obtain fa xa where ea: "?a = ((fa, xa), Success)" by (cases ?a; cases "fst ?a") auto
  from A ea have "content fa = content emptyFile @
              (if DetectURLType util_spec (app_Source archiveApp) = FileURL
               then ''%files\<newline>'' @
                    (if DetectTarballFormat util_spec (app_Source archiveApp) = UnknownFormat
                     then tab # strings_Replace (app_Source archiveApp) ''file://'' [] 1 @ '' /opt\<newline>\<newline>''
                     else [])
               else [])" by blast
  then have "content fa = ''%files\<newline>''"
    by (simp add: a emptyFile_def)
  with ea have r2: "content (fst (fst ?a)) = ''%files\<newline>''"
    by simp
  from G c have "snd ?g = Success" by blast
  then obtain fg xg where eg: "?g = ((fg, xg), Success)" by (cases ?g; cases "fst ?g") auto
  from G eg have "content fg = content emptyFile @
              (if DetectURLType util_spec (app_Source gitApp) = FileURL
               then ''%files\<newline>'' @
                    (if DetectTarballFormat util_spec (app_Source gitApp) = UnknownFormat
                     then tab # strings_Replace (app_Source gitApp) ''file://'' [] 1 @ '' /opt\<newline>\<newline>''
                     else [])
               else [])" by blast
  then have "content fg = []"
    by (simp add: g emptyFile_def)
  with eg have r3: "content (fst (fst ?g)) = []"
    by simp
  from r1 r2 r3 show ?thesis by blast
qed

section \<open>The bootstrap section\<close>

lemma split_loop_line:
  "CHR 0x0A \<notin> set v \<Longrightarrow> split_loop ''\<newline>'' cur (v @ rest) = split_loop ''\<newline>'' (cur @ v) rest"
  by (induction v arbitrary: cur) auto

lemma count_library:
  "CHR 0x0A \<notin> set v \<Longrightarrow>
     linesWithPrefix ''Bootstrap:'' (''Bootstrap: library\<newline>From: '' @ v @ ''\<newline>\<newline>'') = 1 \<and>
     linesWithPrefix ''From:'' (''Bootstrap: library\<newline>From: '' @ v @ ''\<newline>\<newline>'') +
     linesWithPrefix ''OSVersion:'' (''Bootstrap: library\<newline>From: '' @ v @ ''\<newline>\<newline>'') = 1"
  by (simp add: linesWithPrefix_def strings_Split_def split_loop_line)

lemma count_debootstrap:
  "CHR 0x0A \<notin> set v \<Longrightarrow>
     linesWithPrefix ''Bootstrap:'' (''Bootstrap: debootstrap\<newline>OSVersion: '' @ v @
        ''\<newline>MirrorURL: http://us.archive.ubuntu.com/ubuntu/\<newline>\<newline>'') = 1 \<and>
     linesWithPrefix ''From:'' (''Bootstrap: debootstrap\<newline>OSVersion: '' @ v @
        ''\<newline>MirrorURL: http://us.archive.ubuntu.com/ubuntu/\<newline>\<newline>'') +
     linesWithPrefix ''OSVersion:'' (''Bootstrap: debootstrap\<newline>OSVersion: '' @ v @
        ''\<newline>MirrorURL: http://us.archive.ubuntu.com/ubuntu/\<newline>\<newline>'') = 1"
  by (simp add: linesWithPrefix_def strings_Split_def split_loop_line)

lemma count_yum:
  "CHR 0x0A \<notin> set v \<Longrightarrow>
     linesWithPrefix ''Bootstrap:'' (''Bootstrap: yum\<newline>OSVersion: '' @ v @
        ''\<newline>MirrorURL: http://mirror.centos.org/centos-%{OSVERSION}/%{OSVERSION}/os/$basearch/\<newline>Include: yum\<newline>\<newline>'') = 1 \<and>
     linesWithPrefix ''From:'' (''Bootstrap: yum\<newline>OSVersion: '' @ v @
        ''\<newline>MirrorURL: http://mirror.centos.org/centos-%{OSVERSION}/%{OSVERSION}/os/$basearch/\<newline>Include: yum\<newline>\<newline>'') +
     linesWithPrefix ''OSVersion:'' (''Bootstrap: yum\<newline>OSVersion: '' @ v @
        ''\<newline>MirrorURL: http://mirror.centos.org/centos-%{OSVERSION}/%{OSVERSION}/os/$basearch/\<newline>Include: yum\<newline>\<newline>'') = 1"
  by (simp add: linesWithPrefix_def strings_Split_def split_loop_line)

lemma count_docker:
  "linesWithPrefix ''Bootstrap:'' ''Bootstrap: docker\<newline>From: centos\<newline>\<newline>'' = 1 \<and>
   linesWithPrefix ''From:'' ''Bootstrap: docker\<newline>From: centos\<newline>\<newline>'' +
   linesWithPrefix ''OSVersion:'' ''Bootstrap: docker\<newline>From: centos\<newline>\<newline>'' = 1"
  by (simp add: linesWithPrefix_def strings_Split_def)


text \<open>
  Claim C4, as amended. \<^verbatim>\<open>AddBootstrap\<close> follows the decision order of the claim: a
  non-empty registry URL gives the library bootstrap with that URL; otherwise ubuntu gives
  the debootstrap bootstrap with the codename and the fixed mirror, centos gives the yum
  bootstrap with the version when privileged and the docker bootstrap when not, and any
  other name gives the unsupported-distro error with the file as it was. When the builder
  succeeds and the registry URL, the codename and the version hold no line break, the
  fragment it appended has exactly one line that starts with \<^verbatim>\<open>Bootstrap:\<close> and exactly
  one that starts with \<^verbatim>\<open>From:\<close> or \<^verbatim>\<open>OSVersion:\<close>.
\<close>

theorem AddBootstrap_decision_order:
  "(g (DistroID d) c \<noteq> [] \<longrightarrow>
      AddBootstrap g f d c =
        wrap ''failed to add bootstrap section to definition file: ''
          (WriteString f (''Bootstrap: library\<newline>From: '' @ g (DistroID d) c @ ''\<newline>\<newline>''))) \<and>
   (g (DistroID d) c = [] \<and> distro_Name (DistroID d) = ''ubuntu'' \<longrightarrow>
      AddBootstrap g f d c =
        wrap ''failed to add bootstrap section to definition file: ''
          (WriteString f (''Bootstrap: debootstrap\<newline>OSVersion: '' @ distro_Codename (DistroID d) @
             ''\<newline>MirrorURL: http://us.archive.ubuntu.com/ubuntu/\<newline>\<newline>''))) \<and>
   (g (DistroID d) c = [] \<and> distro_Name (DistroID d) = ''centos'' \<and> \<not> Nopriv c \<longrightarrow>
      AddBootstrap g f d c =
        wrap ''failed to add bootstrap section to definition file: ''
          (WriteString f (''Bootstrap: yum\<newline>OSVersion: '' @ distro_Version (DistroID d) @
             ''\<newline>MirrorURL: http://mirror.centos.org/centos-%{OSVERSION}/%{OSVERSION}/os/$basearch/\<newline>Include: yum\<newline>\<newline>''))) \<and>
   (g (DistroID d) c = [] \<and> distro_Name (DistroID d) = ''centos'' \<and> Nopriv c \<longrightarrow>
      AddBootstrap g f d c =
        wrap ''failed to add bootstrap section to definition file: ''
          (WriteString f ''Bootstrap: docker\<newline>From: centos\<newline>\<newline>'')) \<and>
   (g (DistroID d) c = [] \<and> distro_Name (DistroID d) \<noteq> ''ubuntu'' \<and> distro_Name (DistroID d) \<noteq> ''centos'' \<longrightarrow>
      AddBootstrap g f d c = (f, Failure (Errorf (''unsupported distro: '' @ distro_Name (DistroID d))))) \<and>
   (\<forall>f'. AddBootstrap g f d c = (f', Success) \<and>
         CHR 0x0A \<notin> set (g (DistroID d) c) \<and> CHR 0x0A \<notin> set (distro_Codename (DistroID d)) \<and>
         CHR 0x0A \<notin> set (distro_Version (DistroID d)) \<longrightarrow>
      (\<exists>frag. content f' = content f @ frag \<and>
         linesWithPrefix ''Bootstrap:'' frag = 1 \<and>
         linesWithPrefix ''From:'' frag + linesWithPrefix ''OSVersion:'' frag = 1))"
proof (intro conjI allI impI)
  fix f'
  assume a: "AddBootstrap g f d c = (f', Success) \<and>
         CHR 0x0A \<notin> set (g (DistroID d) c) \<and> CHR 0x0A \<notin> set (distro_Codename (DistroID d)) \<and>
         CHR 0x0A \<notin> set (distro_Version (DistroID d))"
  then have ok: "AddBootstrap g f d c = (f', Success)" and
    n1: "CHR 0x0A \<notin> set (g (DistroID d) c)" and n2: "CHR 0x0A \<notin> set (distro_Codename (DistroID d))" and
    n3: "CHR 0x0A \<notin> set (distro_Version (DistroID d))" by auto
  consider (lib) "g (DistroID d) c \<noteq> []"
    | (deb) "g (DistroID d) c = []" "distro_Name (DistroID d) = ''ubuntu''"
    | (yum) "g (DistroID d) c = []" "distro_Name (DistroID d) = ''centos''" "\<not> Nopriv c"
    | (doc) "g (DistroID d) c = []" "distro_Name (DistroID d) = ''centos''" "Nopriv c"
    | (oth) "g (DistroID d) c = []" "distro_Name (DistroID d) \<noteq> ''ubuntu''" "distro_Name (DistroID d) \<noteq> ''centos''"
    by blast
  then show "\<exists>frag. content f' = content f @ frag \<and>
         linesWithPrefix ''Bootstrap:'' frag = 1 \<and>
         linesWithPrefix ''From:'' frag + linesWithPrefix ''OSVersion:'' frag = 1"
  proof cases
    case lib
    with ok have "content f' = content f @ (''Bootstrap: library\<newline>From: '' @ g (DistroID d) c @ ''\<newline>\<newline>'')"
      by (simp add: AddBootstrap_def Let_def wrap_Success_iff WriteString_Success_iff)
    with count_library[OF n1] show ?thesis by blast
  next
    case deb
    with ok have "content f' = content f @ (''Bootstrap: debootstrap\<newline>OSVersion: '' @ distro_Codename (DistroID d) @
        ''\<newline>MirrorURL: http://us.archive.ubuntu.com/ubuntu/\<newline>\<newline>'')"
      by (simp add: AddBootstrap_def addDebootstrapBootstrap_def Let_def wrap_Success_iff WriteString_Success_iff)
    with count_debootstrap[OF n2] show ?thesis by blast
  next
    case yum
    with ok have "content f' = content f @ (''Bootstrap: yum\<newline>OSVersion: '' @ distro_Version (DistroID d) @
        ''\<newline>MirrorURL: http://mirror.centos.org/centos-%{OSVERSION}/%{OSVERSION}/os/$basearch/\<newline>Include: yum\<newline>\<newline>'')"
      by (simp add: AddBootstrap_def addYumBootstrap_def Let_def wrap_Success_iff WriteString_Success_iff)
    with count_yum[OF n3] show ?thesis by blast
  next
    case doc
    with ok have "content f' = content f @ ''Bootstrap: docker\<newline>From: centos\<newline>\<newline>''"
      by (simp add: AddBootstrap_def addDockerBootstrap_def Let_def wrap_Success_iff WriteString_Success_iff)
    with count_docker show ?thesis by blast
  next
    case oth
    with ok show ?thesis by (simp add: AddBootstrap_def Let_def)
  qed
qed (simp_all add: AddBootstrap_def addDebootstrapBootstrap_def addYumBootstrap_def
      addDockerBootstrap_def Let_def)

text \<open>
  The count of the claim as stated fails for a codename that holds a line break: the
  builder copies it as it is, and the fragment has two lines that start with
  \<^verbatim>\<open>Bootstrap:\<close>.
\<close>

theorem codename_with_line_break:
  "AddBootstrap noLibraryImage emptyFile (scenarioA\<lparr>DistroID := twoLineCodename\<rparr>) privileged =
     (\<lparr>content = ''Bootstrap: debootstrap\<newline>OSVersion: focal\<newline>Bootstrap: docker\<newline>MirrorURL: http://us.archive.ubuntu.com/ubuntu/\<newline>\<newline>'',
       capacity = None\<rparr>, Success) \<and>
   linesWithPrefix ''Bootstrap:''
     ''Bootstrap: debootstrap\<newline>OSVersion: focal\<newline>Bootstrap: docker\<newline>MirrorURL: http://us.archive.ubuntu.com/ubuntu/\<newline>\<newline>'' = 2"
  by (simp add: AddBootstrap_def addDebootstrapBootstrap_def noLibraryImage_def emptyFile_def
      twoLineCodename_def WriteString_def accepts_def linesWithPrefix_def strings_Split_def)


theorem AddBootstrap_decision_order_witness:
  "AddBootstrap libraryImage emptyFile scenarioA privileged =
     (emptyFile\<lparr>content := ''Bootstrap: library\<newline>From: library://sylabs/examples/ubuntu\<newline>\<newline>''\<rparr>, Success) \<and>
   AddBootstrap noLibraryImage emptyFile scenarioA privileged =
     (emptyFile\<lparr>content := ''Bootstrap: debootstrap\<newline>OSVersion: focal\<newline>MirrorURL: http://us.archive.ubuntu.com/ubuntu/\<newline>\<newline>''\<rparr>, Success) \<and>
   AddBootstrap noLibraryImage emptyFile (scenarioA\<lparr>DistroID := centos7\<rparr>) privileged =
     (emptyFile\<lparr>content := ''Bootstrap: yum\<newline>OSVersion: 7\<newline>MirrorURL: http://mirror.centos.org/centos-%{OSVERSION}/%{OSVERSION}/os/$basearch/\<newline>Include: yum\<newline>\<newline>''\<rparr>, Success) \<and>
   AddBootstrap noLibraryImage emptyFile (scenarioA\<lparr>DistroID := centos7\<rparr>) unprivileged =
     (emptyFile\<lparr>content := ''Bootstrap: docker\<newline>From: centos\<newline>\<newline>''\<rparr>, Success) \<and>
   AddBootstrap noLibraryImage emptyFile (scenarioA\<lparr>DistroID := debian10\<rparr>) privileged =
     (emptyFile, Failure (Errorf ''unsupported distro: debian'')) \<and>
   (\<exists>frag. content (fst (AddBootstrap noLibraryImage emptyFile scenarioA privileged)) = frag \<and>
      linesWithPrefix ''Bootstrap:'' frag = 1 \<and>
      linesWithPrefix ''From:'' frag + linesWithPrefix ''OSVersion:'' frag = 1)"
proof -
  note L = AddBootstrap_decision_order[of libraryImage scenarioA privileged emptyFile]
  note U = AddBootstrap_decision_order[of noLibraryImage scenarioA privileged emptyFile]
  note Y = AddBootstrap_decision_order[of noLibraryImage "scenarioA\<lparr>DistroID := centos7\<rparr>" privileged emptyFile]
  note D = AddBootstrap_decision_order[of noLibraryImage "scenarioA\<lparr>DistroID := centos7\<rparr>" unprivileged emptyFile]
  note O = AddBootstrap_decision_order[of noLibraryImage "scenarioA\<lparr>DistroID := debian10\<rparr>" privileged emptyFile]
  have w: "\<And>m s. wrap m (WriteString emptyFile s) = (emptyFile\<lparr>content := s\<rparr>, Success)"
    by (simp add: WriteString_def accepts_def emptyFile_def)
  have l: "libraryImage (DistroID scenarioA) privileged \<noteq> []" by (simp add: libraryImage_def)
  from L l have r1: "AddBootstrap libraryImage emptyFile scenarioA privileged =
     (emptyFile\<lparr>content := ''Bootstrap: library\<newline>From: library://sylabs/examples/ubuntu\<newline>\<newline>''\<rparr>, Success)"
    by (simp add: w libraryImage_def)
  have u: "noLibraryImage (DistroID scenarioA) privileged = [] \<and> distro_Name (DistroID scenarioA) = ''ubuntu''"
    by (simp add: noLibraryImage_def scenarioA_def)
  from U u have "AddBootstrap noLibraryImage emptyFile scenarioA privileged =
        wrap ''failed to add bootstrap section to definition file: ''
          (WriteString emptyFile (''Bootstrap: debootstrap\<newline>OSVersion: '' @ distro_Codename (DistroID scenarioA) @
             ''\<newline>MirrorURL: http://us.archive.ubuntu.com/ubuntu/\<newline>\<newline>''))" by blast
  then have r2: "AddBootstrap noLibraryImage emptyFile scenarioA privileged =
     (emptyFile\<lparr>content := ''Bootstrap: debootstrap\<newline>OSVersion: focal\<newline>MirrorURL: http://us.archive.ubuntu.com/ubuntu/\<newline>\<newline>''\<rparr>, Success)"
    by (simp add: w scenarioA_def)
  have y: "noLibraryImage (DistroID (scenarioA\<lparr>DistroID := centos7\<rparr>)) privileged = [] \<and>
           distro_Name (DistroID (scenarioA\<lparr>DistroID := centos7\<rparr>)) = ''centos'' \<and> \<not> Nopriv privileged"
    by (simp add: noLibraryImage_def centos7_def privileged_def)
  from Y y have "AddBootstrap noLibraryImage emptyFile (scenarioA\<lparr>DistroID := centos7\<rparr>) privileged =
        wrap ''failed to add bootstrap section to definition file: ''
          (WriteString emptyFile (''Bootstrap: yum\<newline>OSVersion: '' @ distro_Version (DistroID (scenarioA\<lparr>DistroID := centos7\<rparr>)) @
             ''\<newline>MirrorURL: http://mirror.centos.org/centos-%{OSVERSION}/%{OSVERSION}/os/$basearch/\<newline>Include: yum\<newline>\<newline>''))"
    by blast
  then have r3: "AddBootstrap noLibraryImage emptyFile (scenarioA\<lparr>DistroID := centos7\<rparr>) privileged =
     (emptyFile\<lparr>content := ''Bootstrap: yum\<newline>OSVersion: 7\<newline>MirrorURL: http://mirror.centos.org/centos-%{OSVERSION}/%{OSVERSION}/os/$basearch/\<newline>Include: yum\<newline>\<newline>''\<rparr>, Success)"
    by (simp add: w centos7_def)
  have dk: "noLibraryImage (DistroID (scenarioA\<lparr>DistroID := centos7\<rparr>)) unprivileged = [] \<and>
           distro_Name (DistroID (scenarioA\<lparr>DistroID := centos7\<rparr>)) = ''centos'' \<and> Nopriv unprivileged"
    by (simp add: noLibraryImage_def centos7_def unprivileged_def)
  from D dk have r4: "AddBootstrap noLibraryImage emptyFile (scenarioA\<lparr>DistroID := centos7\<rparr>) unprivileged =
     (emptyFile\<lparr>content := ''Bootstrap: docker\<newline>From: centos\<newline>\<newline>''\<rparr>, Success)"
    by (simp add: w)
  have o: "noLibraryImage (DistroID (scenarioA\<lparr>DistroID := debian10\<rparr>)) privileged = [] \<and>
           distro_Name (DistroID (scenarioA\<lparr>DistroID := debian10\<rparr>)) \<noteq> ''ubuntu'' \<and>
           distro_Name (DistroID (scenarioA\<lparr>DistroID := debian10\<rparr>)) \<noteq> ''centos''"
    by (simp add: noLibraryImage_def debian10_def)
  from O o have "AddBootstrap noLibraryImage emptyFile (scenarioA\<lparr>DistroID := debian10\<rparr>) privileged =
     (emptyFile, Failure (Errorf (''unsupported distro: '' @ distro_Name (DistroID (scenarioA\<lparr>DistroID := debian10\<rparr>)))))"
    by blast
  then have r5: "AddBootstrap noLibraryImage emptyFile (scenarioA\<lparr>DistroID := debian10\<rparr>) privileged =
     (emptyFile, Failure (Errorf ''unsupported distro: debian''))"
    by (simp add: debian10_def)
  have n: "CHR 0x0A \<notin> set (noLibraryImage (DistroID scenarioA) privileged) \<and>
           CHR 0x0A \<notin> set (distro_Codename (DistroID scenarioA)) \<and>
           CHR 0x0A \<notin> set (distro_Version (DistroID scenarioA))"
    by (simp add: noLibraryImage_def scenarioA_def)
  from U r2 n have "\<exists>frag. content (emptyFile\<lparr>content := ''Bootstrap: debootstrap\<newline>OSVersion: focal\<newline>MirrorURL: http://us.archive.ubuntu.com/ubuntu/\<newline>\<newline>''\<rparr>) = content emptyFile @ frag \<and>
         linesWithPrefix ''Bootstrap:'' frag = 1 \<and>
         linesWithPrefix ''From:'' frag + linesWithPrefix ''OSVersion:'' frag = 1"
    by blast
  then have "linesWithPrefix ''Bootstrap:'' ''Bootstrap: debootstrap\<newline>OSVersion: focal\<newline>MirrorURL: http://us.archive.ubuntu.com/ubuntu/\<newline>\<newline>'' = 1 \<and>
      linesWithPrefix ''From:'' ''Bootstrap: debootstrap\<newline>OSVersion: focal\<newline>MirrorURL: http://us.archive.ubuntu.com/ubuntu/\<newline>\<newline>'' +
      linesWithPrefix ''OSVersion:'' ''Bootstrap: debootstrap\<newline>OSVersion: focal\<newline>MirrorURL: http://us.archive.ubuntu.com/ubuntu/\<newline>\<newline>'' = 1"
    by (simp add: emptyFile_def)
  moreover have "content (fst (AddBootstrap noLibraryImage emptyFile scenarioA privileged)) =
      ''Bootstrap: debootstrap\<newline>OSVersion: focal\<newline>MirrorURL: http://us.archive.ubuntu.com/ubuntu/\<newline>\<newline>''"
    by (simp add: r2)
  ultimately have r6: "\<exists>frag. content (fst (AddBootstrap noLibraryImage emptyFile scenarioA privileged)) = frag \<and>
      linesWithPrefix ''Bootstrap:'' frag = 1 \<and>
      linesWithPrefix ''From:'' frag + linesWithPrefix ''OSVersion:'' frag = 1"
    by simp
  from r1 r2 r3 r4 r5 r6 show ?thesis by blast
qed

section \<open>The template processor: error exits\<close>









section \<open>Labels and the inspection parser\<close>




lemma split_loop_sep:
  "split_loop ''\<newline>'' cur (CHR 0x0A # rest) = cur # split_loop ''\<newline>'' [] rest"
  by simp


































end
